theory Spec2Isabelle
  imports Main "HOL-Library.AList"
begin

section \<open>Values, requests, responses and errors\<close>

text \<open>
  A Python \<open>str\<close> is a sequence of Unicode code points. The messages of
  \<open>recipes/views.py\<close> are Cyrillic, so a \<open>str\<close> is modelled as the list of its code
  points; field names, which are ASCII identifiers, stay \<open>string\<close>.
\<close>

type_synonym ustring = "nat list"

datatype json =
    JNull
  | JBool bool
  | JNum int
  | JStr ustring
  | JArr "json list"
  | JObj "(string \<times> json) list"

text \<open>\<open>request.user\<close>: Django's \<open>AnonymousUser\<close>, or a row of the user table by its id.\<close>

datatype requester = AnonymousUser | User nat

datatype http_method = GET | HEAD | OPTIONS | POST | PUT | PATCH | DELETE

record request =
  req_method :: http_method
  req_user :: requester
  req_data :: json

text \<open>\<open>permissions.SAFE_METHODS = ('GET', 'HEAD', 'OPTIONS')\<close>.\<close>

definition SAFE_METHODS :: "http_method list" where
  "SAFE_METHODS = [GET, HEAD, OPTIONS]"

text \<open>
  The detail of a \<open>ValidationError\<close>: the text the view raises it with, or what the
  serializer reports (the body is not a mapping; field errors of the declared fields).
\<close>

datatype detail = Text ustring | InvalidData | FieldErrors json

datatype error =
    ValidationError detail
  | Http404
  | NotAuthenticated
  | PermissionDenied
  | MethodNotAllowed
  | DoesNotExist
  | MultipleObjectsReturned
  | TypeError
  | ValueError

text \<open>
  The status the framework answers an exception with: the REST framework's exception
  handler for its own exceptions and \<open>Http404\<close>, Django's server error for the rest.
\<close>

fun status_code :: "error \<Rightarrow> nat" where
  "status_code (ValidationError d) = 400"
| "status_code Http404 = 404"
| "status_code NotAuthenticated = 401"
| "status_code PermissionDenied = 403"
| "status_code MethodNotAllowed = 405"
| "status_code DoesNotExist = 500"
| "status_code MultipleObjectsReturned = 500"
| "status_code TypeError = 500"
| "status_code ValueError = 500"

record response =
  status :: nat
  data :: "json option"

text \<open>The status of what a view produced: of its response, or of the exception it raised.\<close>

definition http_status :: "error + response \<Rightarrow> nat" where
  "http_status r = (case r of Inl e \<Rightarrow> status_code e | Inr resp \<Rightarrow> status resp)"

definition HTTP_201_CREATED :: nat where
  "HTTP_201_CREATED = 201"

definition HTTP_204_NO_CONTENT :: nat where
  "HTTP_204_NO_CONTENT = 204"

section \<open>The tables\<close>

text \<open>
  \<open>Favorite\<close> and \<open>ShoppingCart\<close> rows relate a user to a recipe. A table of them is a
  list of rows in insertion order: nothing in the views makes a second row for the same
  pair impossible by construction, so duplicates are representable.
\<close>

record relation_row =
  rel_user :: nat
  rel_recipe :: nat

record ingredient_recipe =
  ir_recipe :: nat
  ir_ingredient :: nat
  ir_amount :: nat

text \<open>
  A value of a recipe's field: the user object given as \<open>author\<close>, or data validated
  from the request body. A recipe row is the dictionary of its fields.
\<close>

datatype field_value = UserObj requester | Data json

type_synonym recipe = "(string \<times> field_value) list"

text \<open>
  Tables with a primary key are association lists from the key to the row; the lookup
  by key is \<open>map_of\<close>. \<open>recipe_id_seq\<close> is the sequence new recipe ids come from.
\<close>

record db =
  recipe_rows :: "(nat \<times> recipe) list"
  recipe_id_seq :: nat
  favorite_rows :: "relation_row list"
  shopping_cart_rows :: "relation_row list"
  ingredient_recipe_rows :: "ingredient_recipe list"
  ingredient_rows :: "(nat \<times> json) list"
  tag_rows :: "(nat \<times> json) list"

datatype relation_model = Favorite | ShoppingCart

fun objects :: "relation_model \<Rightarrow> db \<Rightarrow> relation_row list" where
  "objects Favorite s = favorite_rows s"
| "objects ShoppingCart s = shopping_cart_rows s"

fun set_objects :: "relation_model \<Rightarrow> relation_row list \<Rightarrow> db \<Rightarrow> db" where
  "set_objects Favorite rows s = s\<lparr>favorite_rows := rows\<rparr>"
| "set_objects ShoppingCart rows s = s\<lparr>shopping_cart_rows := rows\<rparr>"

section \<open>The query layer\<close>

text \<open>\<open>QuerySet.exists()\<close>, \<open>QuerySet.get()\<close> and \<open>get_object_or_404\<close> on the rows a filter selected.\<close>

definition queryset_exists :: "'a list \<Rightarrow> bool" where
  "queryset_exists qs = (qs \<noteq> [])"

fun queryset_get :: "'a list \<Rightarrow> error + 'a" where
  "queryset_get [] = Inl DoesNotExist"
| "queryset_get [x] = Inr x"
| "queryset_get (x # y # qs) = Inl MultipleObjectsReturned"

definition get_object_or_404 :: "'a list \<Rightarrow> error + 'a" where
  "get_object_or_404 qs =
     (case queryset_get qs of
        Inl DoesNotExist \<Rightarrow> Inl Http404
      | r \<Rightarrow> r)"

text \<open>\<open>Recipe.objects.filter(id=pk)\<close>: the rows with that primary key, at most one.\<close>

definition recipe_filter_id :: "nat \<Rightarrow> db \<Rightarrow> (nat \<times> recipe) list" where
  "recipe_filter_id pk s = (case map_of (recipe_rows s) pk of None \<Rightarrow> [] | Some r \<Rightarrow> [(pk, r)])"

text \<open>\<open>model.objects.filter(recipe=recipe, user=user)\<close>.\<close>

definition relation_filter :: "relation_model \<Rightarrow> nat \<Rightarrow> nat \<Rightarrow> db \<Rightarrow> relation_row list" where
  "relation_filter model recipe_pk user_pk s =
     filter (\<lambda>r. rel_recipe r = recipe_pk \<and> rel_user r = user_pk) (objects model s)"

section \<open>The relation serializers\<close>

text \<open>
  A serializer class of a relation model: the model its \<open>Meta\<close> names, the validation of
  its declared fields on a mapping (\<open>None\<close>: valid, \<open>Some e\<close>: the field errors) and
  the representation of a saved row, which may read the tables.
\<close>

record serializer_class =
  meta_model :: relation_model
  run_validators :: "(string \<times> json) list \<Rightarrow> json option"
  to_representation :: "relation_row \<Rightarrow> db \<Rightarrow> json"

text \<open>
  \<open>serializer.is_valid(raise_exception=True)\<close> on \<open>request.data\<close>. The framework's
  \<open>Serializer.to_internal_value\<close> rejects every body that is not a mapping before any
  field is looked at; a mapping goes through the declared fields.
\<close>

fun is_valid :: "serializer_class \<Rightarrow> json \<Rightarrow> error + bool" where
  "is_valid ser (JObj kv) =
     (case run_validators ser kv of
        None \<Rightarrow> Inr True
      | Some e \<Rightarrow> Inl (ValidationError (FieldErrors e)))"
| "is_valid ser other = Inl (ValidationError InvalidData)"

text \<open>
  \<open>serializer.save(user=user, recipe=recipe)\<close>: \<open>ModelSerializer.create\<close> inserts one
  row of the serializer's model, with the keyword arguments as its fields, and returns it.
\<close>

definition save :: "serializer_class \<Rightarrow> nat \<Rightarrow> nat \<Rightarrow> db \<Rightarrow> relation_row \<times> db" where
  "save ser user_pk recipe_pk s =
     (let obj = \<lparr>rel_user = user_pk, rel_recipe = recipe_pk\<rparr>
      in (obj, set_objects (meta_model ser) (objects (meta_model ser) s @ [obj]) s))"

type_synonym field_decls =
  "((string \<times> json) list \<Rightarrow> json option) \<times> (relation_row \<Rightarrow> db \<Rightarrow> json)"

text \<open>
  Modelled from the spec: \<open>FavoriteSerializer\<close> (\<open>recipes/serializers.py\<close>) is missing. The
  spec has the toggle "insert/delete one row" of the favorite relation, so the serializer
  is bound to the model \<open>Favorite\<close>; its declared fields (their validation and the
  representation) are a parameter.
\<close>

definition FavoriteSerializer :: "field_decls \<Rightarrow> serializer_class" where
  "FavoriteSerializer d =
     \<lparr>meta_model = Favorite, run_validators = fst d, to_representation = snd d\<rparr>"

text \<open>
  Modelled from the spec: \<open>ShoppingCartSerializer\<close> (\<open>recipes/serializers.py\<close>) is missing.
  As for the favorites, the spec has the toggle "insert/delete one row" of the cart
  relation: the serializer is bound to the model \<open>ShoppingCart\<close>, and its declared
  fields are a parameter.
\<close>

definition ShoppingCartSerializer :: "field_decls \<Rightarrow> serializer_class" where
  "ShoppingCartSerializer d =
     \<lparr>meta_model = ShoppingCart, run_validators = fst d, to_representation = snd d\<rparr>"

section \<open>RecipeViewSet: favorite and shopping cart\<close>

text \<open>The three message texts of the view, and the two list names, as code points.\<close>

definition msg_no_recipe :: ustring where
  "msg_no_recipe = [1056, 1077, 1094, 1077, 1087, 1090, 1072, 32, 1089, 32, 1090, 1072,
     1082, 1080, 1084, 32, 105, 100, 32, 1085, 1077, 32, 1089, 1091, 1097, 1077, 1089,
     1090, 1074, 1091, 1077, 1090]"

definition msg_already_added :: ustring where
  "msg_already_added = [1056, 1077, 1094, 1077, 1087, 1090, 32, 1091, 1078, 1077, 32,
     1076, 1086, 1073, 1072, 1074, 1083, 1077, 1085, 32, 1074, 32]"

definition msg_not_added :: ustring where
  "msg_not_added = [1056, 1077, 1094, 1077, 1087, 1090, 32, 1085, 1077, 32, 1076, 1086,
     1073, 1072, 1074, 1083, 1077, 1085, 32, 1074, 32]"

definition message_favorite :: ustring where
  "message_favorite = [1080, 1079, 1073, 1088, 1072, 1085, 1085, 1086, 1077]"

definition message_shopping_cart :: ustring where
  "message_shopping_cart = [1089, 1087, 1080, 1089, 1086, 1082, 32, 1087, 1086, 1082,
     1091, 1087, 1086, 1082]"

text \<open>
  A view returns a response or raises, and leaves a state: \<open>(error + response) \<times> db\<close>.
  \<open>add_recipe\<close>, line by line. A filter on \<open>user=AnonymousUser\<close> raises \<open>TypeError\<close> in
  the query layer (the actions are declared for authenticated users). With
  \<open>raise_exception=True\<close>, \<open>is_valid\<close> returns \<open>True\<close> or raises, so the branch of the
  \<open>if\<close> that skips \<open>save\<close> is written out and never taken.
\<close>

definition add_recipe ::
  "request \<Rightarrow> nat \<Rightarrow> relation_model \<Rightarrow> serializer_class \<Rightarrow> ustring \<Rightarrow> db
    \<Rightarrow> (error + response) \<times> db" where
  "add_recipe request pk model ser message s =
     (if \<not> queryset_exists (recipe_filter_id pk s)
      then (Inl (ValidationError (Text msg_no_recipe)), s)
      else
        (case queryset_get (recipe_filter_id pk s) of
           Inl e \<Rightarrow> (Inl e, s)
         | Inr recipe \<Rightarrow>
             (case req_user request of
                AnonymousUser \<Rightarrow> (Inl TypeError, s)
              | User user \<Rightarrow>
                  if queryset_exists (relation_filter model (fst recipe) user s)
                  then (Inl (ValidationError (Text (msg_already_added @ message))), s)
                  else
                    (case is_valid ser (req_data request) of
                       Inl e \<Rightarrow> (Inl e, s)
                     | Inr ok \<Rightarrow>
                         (let (obj, s') =
                                (if ok then save ser user (fst recipe) s
                                 else (\<lparr>rel_user = user, rel_recipe = fst recipe\<rparr>, s))
                          in (Inr \<lparr>status = HTTP_201_CREATED,
                                   data = Some (to_representation ser obj s')\<rparr>, s'))))))"

text \<open>
  \<open>delete_recipe\<close>. \<open>obj.delete()\<close> removes the row \<open>get_object_or_404\<close> returned, which is
  the only row of its pair when the lookup succeeds.
\<close>

definition delete_recipe ::
  "request \<Rightarrow> nat \<Rightarrow> relation_model \<Rightarrow> ustring \<Rightarrow> db \<Rightarrow> (error + response) \<times> db" where
  "delete_recipe request pk model message s =
     (case get_object_or_404 (recipe_filter_id pk s) of
        Inl e \<Rightarrow> (Inl e, s)
      | Inr recipe \<Rightarrow>
          (case req_user request of
             AnonymousUser \<Rightarrow> (Inl TypeError, s)
           | User user \<Rightarrow>
               if \<not> queryset_exists (relation_filter model (fst recipe) user s)
               then (Inl (ValidationError (Text (msg_not_added @ message))), s)
               else
                 (case get_object_or_404 (relation_filter model (fst recipe) user s) of
                    Inl e \<Rightarrow> (Inl e, s)
                  | Inr obj \<Rightarrow>
                      (Inr \<lparr>status = HTTP_204_NO_CONTENT, data = None\<rparr>,
                       set_objects model (remove1 obj (objects model s)) s))))"

definition favorite ::
  "field_decls \<Rightarrow> request \<Rightarrow> nat \<Rightarrow> db \<Rightarrow> (error + response) \<times> db" where
  "favorite d request pk s =
     (let message = message_favorite
      in if req_method request = POST
         then add_recipe request pk Favorite (FavoriteSerializer d) message s
         else delete_recipe request pk Favorite message s)"

definition shopping_cart ::
  "field_decls \<Rightarrow> request \<Rightarrow> nat \<Rightarrow> db \<Rightarrow> (error + response) \<times> db" where
  "shopping_cart d request pk s =
     (let message = message_shopping_cart
      in if req_method request = POST
         then add_recipe request pk ShoppingCart (ShoppingCartSerializer d) message s
         else delete_recipe request pk ShoppingCart message s)"

text \<open>
  The claim that the two actions are one operation at two relation models, in the
  spec's words: one toggle, given the model, its serializer class and the message.
\<close>

definition toggle_spec ::
  "relation_model \<Rightarrow> serializer_class \<Rightarrow> ustring \<Rightarrow> request \<Rightarrow> nat \<Rightarrow> db
    \<Rightarrow> (error + response) \<times> db" where
  "toggle_spec model ser message request pk s =
     (if req_method request = POST
      then add_recipe request pk model ser message s
      else delete_recipe request pk model message s)"

text \<open>
  Exchanging the two relation tables, the serializer that reads them, and the list name
  inside an error text.
\<close>

definition swap_tables :: "db \<Rightarrow> db" where
  "swap_tables s =
     s\<lparr>favorite_rows := shopping_cart_rows s, shopping_cart_rows := favorite_rows s\<rparr>"

definition swap_decls :: "field_decls \<Rightarrow> field_decls" where
  "swap_decls d = (fst d, \<lambda>row s. snd d row (swap_tables s))"

fun relabel :: "ustring \<Rightarrow> ustring \<Rightarrow> error \<Rightarrow> error" where
  "relabel p q (ValidationError (Text t)) =
     (if t = msg_already_added @ p then ValidationError (Text (msg_already_added @ q))
      else if t = msg_not_added @ p then ValidationError (Text (msg_not_added @ q))
      else ValidationError (Text t))"
| "relabel p q e = e"

section \<open>The uniqueness invariant\<close>

definition relation_key :: "relation_row \<Rightarrow> nat \<times> nat" where
  "relation_key r = (rel_user r, rel_recipe r)"

definition unique_rows :: "relation_row list \<Rightarrow> bool" where
  "unique_rows rows = distinct (map relation_key rows)"

definition unique_relations :: "db \<Rightarrow> bool" where
  "unique_relations s = (unique_rows (favorite_rows s) \<and> unique_rows (shopping_cart_rows s))"

section \<open>RecipeViewSet: the shopping list\<close>

text \<open>
  The loop \<open>for id in range(len(recipes)): ingredients.append(...)\<close>: the index list,
  the list \<open>recipes\<close> it indexes, and the accumulator \<open>ingredients\<close>.
\<close>

fun append_ingredients ::
  "nat list \<Rightarrow> nat list \<Rightarrow> db \<Rightarrow> ingredient_recipe list list \<Rightarrow> ingredient_recipe list list" where
  "append_ingredients [] recipes s ingredients = ingredients"
| "append_ingredients (i # ids) recipes s ingredients =
     append_ingredients ids recipes s
       (ingredients @ [filter (\<lambda>ir. ir_recipe ir = recipes ! i) (ingredient_recipe_rows s)])"

text \<open>
  \<open>download\<close> (\<open>recipes/utils.py\<close>) is not among the sources: it is a parameter, and its
  return value is the response.
\<close>

definition download_shopping_cart ::
  "(ingredient_recipe list list \<Rightarrow> 'r) \<Rightarrow> request \<Rightarrow> db \<Rightarrow> (error + 'r) \<times> db" where
  "download_shopping_cart download request s =
     (case req_user request of
        AnonymousUser \<Rightarrow> (Inl TypeError, s)
      | User user \<Rightarrow>
          (let recipes = map rel_recipe (filter (\<lambda>obj. rel_user obj = user) (shopping_cart_rows s));
               ingredients = append_ingredients [0..<length recipes] recipes s []
           in (Inr (download ingredients), s)))"

text \<open>
  The shopping list in the spec's words: the cart rows of the user, and for each, in
  their order, the ingredient rows of its recipe.
\<close>

definition shopping_list_spec :: "nat \<Rightarrow> db \<Rightarrow> ingredient_recipe list list" where
  "shopping_list_spec user s =
     map (\<lambda>row. filter (\<lambda>ir. ir_recipe ir = rel_recipe row) (ingredient_recipe_rows s))
       (filter (\<lambda>row. rel_user row = user) (shopping_cart_rows s))"

section \<open>RecipeViewSet: creating a recipe\<close>

type_synonym validated_data = "(string \<times> field_value) list"

text \<open>
  \<open>BaseSerializer.save(**kwargs)\<close> builds \<open>{**self.validated_data, **kwargs}\<close>: a key of
  \<open>kwargs\<close> replaces the value validated from the body, a new key is added.
\<close>

definition dict_merge :: "validated_data \<Rightarrow> validated_data \<Rightarrow> validated_data" where
  "dict_merge vd kwargs = fold (\<lambda>(k, v). AList.update k v) kwargs vd"

text \<open>
  Modelled from the spec: \<open>PostRecipeSerializer.create\<close> (\<open>recipes/serializers.py\<close>) is
  missing. The spec calls creating a recipe a "passthrough" to the ORM "with one extra
  author-assignment step": the fields handed to \<open>create\<close> become the new row of the
  recipe table as they are, under the next id. An author that is no user row cannot be
  assigned to the foreign key (\<open>ValueError\<close>).
\<close>

definition recipe_create :: "validated_data \<Rightarrow> db \<Rightarrow> (error + nat \<times> recipe) \<times> db" where
  "recipe_create vd s =
     (case map_of vd ''author'' of
        Some (UserObj AnonymousUser) \<Rightarrow> (Inl ValueError, s)
      | other \<Rightarrow>
          (let pk = recipe_id_seq s
           in (Inr (pk, vd), s\<lparr>recipe_rows := recipe_rows s @ [(pk, vd)], recipe_id_seq := Suc pk\<rparr>)))"

definition serializer_save ::
  "validated_data \<Rightarrow> validated_data \<Rightarrow> db \<Rightarrow> (error + nat \<times> recipe) \<times> db" where
  "serializer_save vd kwargs s = recipe_create (dict_merge vd kwargs) s"

text \<open>
  \<open>perform_create\<close>: \<open>serializer.save(author=self.request.user)\<close>, on a serializer that
  holds the data validated from the body.
\<close>

definition perform_create ::
  "request \<Rightarrow> validated_data \<Rightarrow> db \<Rightarrow> (error + nat \<times> recipe) \<times> db" where
  "perform_create request serializer s =
     serializer_save serializer [(''author'', UserObj (req_user request))] s"

section \<open>Permissions\<close>

datatype permission_class = IsAuthenticated | IsAuthenticatedOrReadOnly | IsAuthorOrReadOnly

fun is_authenticated :: "requester \<Rightarrow> bool" where
  "is_authenticated AnonymousUser = False"
| "is_authenticated (User u) = True"

text \<open>
  Modelled from the spec: \<open>IsAuthorOrReadOnly\<close> (\<open>recipes/permissions.py\<close>) is missing. The
  spec gives recipes an "author-based write permission" and nothing more, so on the view
  the class decides nothing: it is the framework's default, which lets every request pass.
\<close>

definition IsAuthorOrReadOnly_has_permission :: "request \<Rightarrow> bool" where
  "IsAuthorOrReadOnly_has_permission request = True"

text \<open>
  Modelled from the spec: the object-level check of the missing \<open>IsAuthorOrReadOnly\<close>. The
  spec's "author-based write permission" ("author-only edit"): a safe method, or the
  requester is the author of the object.
\<close>

definition IsAuthorOrReadOnly_has_object_permission :: "request \<Rightarrow> recipe \<Rightarrow> bool" where
  "IsAuthorOrReadOnly_has_object_permission request obj =
     (req_method request \<in> set SAFE_METHODS
      \<or> map_of obj ''author'' = Some (UserObj (req_user request)))"

text \<open>
  The framework's \<open>IsAuthenticated\<close> and \<open>IsAuthenticatedOrReadOnly\<close>; their object-level
  check is the default, which lets every request pass.
\<close>

fun has_permission :: "permission_class \<Rightarrow> request \<Rightarrow> bool" where
  "has_permission IsAuthenticated request = is_authenticated (req_user request)"
| "has_permission IsAuthenticatedOrReadOnly request =
     (req_method request \<in> set SAFE_METHODS \<or> is_authenticated (req_user request))"
| "has_permission IsAuthorOrReadOnly request = IsAuthorOrReadOnly_has_permission request"

fun has_object_permission :: "permission_class \<Rightarrow> request \<Rightarrow> recipe \<Rightarrow> bool" where
  "has_object_permission IsAuthorOrReadOnly request obj =
     IsAuthorOrReadOnly_has_object_permission request obj"
| "has_object_permission p request obj = True"

definition check_permissions :: "permission_class list \<Rightarrow> request \<Rightarrow> bool" where
  "check_permissions perms request = list_all (\<lambda>p. has_permission p request) perms"

definition check_object_permissions :: "permission_class list \<Rightarrow> request \<Rightarrow> recipe \<Rightarrow> bool" where
  "check_object_permissions perms request obj =
     list_all (\<lambda>p. has_object_permission p request obj) perms"

definition RecipeViewSet_permission_classes :: "permission_class list" where
  "RecipeViewSet_permission_classes = [IsAuthorOrReadOnly, IsAuthenticatedOrReadOnly]"

text \<open>
  What a request to a recipe route passes before its handler runs: the view-level check
  always, and the object-level check when the route names a recipe (retrieve, update,
  partial update, destroy go through \<open>get_object\<close>; list and create do not).
\<close>

definition recipe_permitted :: "request \<Rightarrow> recipe option \<Rightarrow> bool" where
  "recipe_permitted request target =
     (check_permissions RecipeViewSet_permission_classes request
      \<and> (case target of
           None \<Rightarrow> True
         | Some obj \<Rightarrow> check_object_permissions RecipeViewSet_permission_classes request obj))"

section \<open>The framework's generic viewsets\<close>

text \<open>
  \<open>IngredientViewSet\<close> and \<open>TagViewSet\<close> are assembled from the framework's mixins. What
  a viewset answers to a request follows from which mixins it has, so the mixins, the
  actions each provides, the router's two routes and the dispatch are modelled for any
  viewset; a table is the association list of its rows.
\<close>

datatype mixin =
    CreateModelMixin
  | ListModelMixin
  | RetrieveModelMixin
  | UpdateModelMixin
  | DestroyModelMixin

datatype action =
    Action_list
  | Action_create
  | Action_retrieve
  | Action_update
  | Action_partial_update
  | Action_destroy

fun mixin_actions :: "mixin \<Rightarrow> action list" where
  "mixin_actions CreateModelMixin = [Action_create]"
| "mixin_actions ListModelMixin = [Action_list]"
| "mixin_actions RetrieveModelMixin = [Action_retrieve]"
| "mixin_actions UpdateModelMixin = [Action_update, Action_partial_update]"
| "mixin_actions DestroyModelMixin = [Action_destroy]"

definition viewset_actions :: "mixin list \<Rightarrow> action list" where
  "viewset_actions bases = concat (map mixin_actions bases)"

text \<open>
  The router's list route (\<open>detail = False\<close>) and detail route (\<open>detail = True\<close>): the
  action each method maps to.
\<close>

fun route :: "bool \<Rightarrow> http_method \<Rightarrow> action option" where
  "route False GET = Some Action_list"
| "route False POST = Some Action_create"
| "route True GET = Some Action_retrieve"
| "route True PUT = Some Action_update"
| "route True PATCH = Some Action_partial_update"
| "route True DELETE = Some Action_destroy"
| "route detail m = None"

text \<open>
  A method is bound to its action only when the viewset has the action; \<open>HEAD\<close> is bound
  to what \<open>GET\<close> is bound to. A route none of whose actions the viewset has is not
  registered.
\<close>

definition bound_action :: "mixin list \<Rightarrow> bool \<Rightarrow> http_method \<Rightarrow> action option" where
  "bound_action bases detail m =
     (case route detail (if m = HEAD then GET else m) of
        None \<Rightarrow> None
      | Some a \<Rightarrow> if a \<in> set (viewset_actions bases) then Some a else None)"

definition route_registered :: "mixin list \<Rightarrow> bool \<Rightarrow> bool" where
  "route_registered bases detail =
     list_ex (\<lambda>m. bound_action bases detail m \<noteq> None) [GET, POST, PUT, PATCH, DELETE]"

type_synonym table = "(nat \<times> json) list"

record paginator =
  paginate_queryset :: "request \<Rightarrow> table \<Rightarrow> table"
  get_paginated_response :: "json list \<Rightarrow> json"

record model_serializer =
  represent :: "nat \<times> json \<Rightarrow> json"
  validate :: "json \<Rightarrow> json option"

record viewset =
  vs_bases :: "mixin list"
  vs_permission :: "request \<Rightarrow> (nat \<times> json) option \<Rightarrow> bool"
  vs_filter_backends :: "request \<Rightarrow> table \<Rightarrow> table"
  vs_pagination_class :: "paginator option"
  vs_serializer_class :: model_serializer
  vs_metadata :: json

definition permission_denied :: "request \<Rightarrow> error" where
  "permission_denied request =
     (if is_authenticated (req_user request) then PermissionDenied else NotAuthenticated)"

text \<open>\<open>GenericAPIView.get_object\<close>: the filtered queryset, the lookup, the object permission.\<close>

definition get_object :: "viewset \<Rightarrow> request \<Rightarrow> nat \<Rightarrow> table \<Rightarrow> error + nat \<times> json" where
  "get_object v request pk tbl =
     (case get_object_or_404 (filter (\<lambda>r. fst r = pk) (vs_filter_backends v request tbl)) of
        Inl e \<Rightarrow> Inl e
      | Inr obj \<Rightarrow>
          if vs_permission v request (Some obj) then Inr obj
          else Inl (permission_denied request))"

text \<open>
  \<open>ListModelMixin.list\<close>: \<open>paginate_queryset\<close> returns \<open>None\<close> when the viewset has no
  paginator, and the whole filtered queryset is serialized.
\<close>

definition list_response :: "viewset \<Rightarrow> request \<Rightarrow> table \<Rightarrow> response" where
  "list_response v request tbl =
     (let queryset = vs_filter_backends v request tbl
      in case vs_pagination_class v of
           None \<Rightarrow>
             \<lparr>status = 200,
              data = Some (JArr (map (represent (vs_serializer_class v)) queryset))\<rparr>
         | Some p \<Rightarrow>
             \<lparr>status = 200,
              data = Some (get_paginated_response p
                (map (represent (vs_serializer_class v)) (paginate_queryset p request queryset)))\<rparr>)"

fun run_action ::
  "viewset \<Rightarrow> action \<Rightarrow> request \<Rightarrow> nat \<Rightarrow> table \<Rightarrow> (error + response) \<times> table" where
  "run_action v Action_list request pk tbl = (Inr (list_response v request tbl), tbl)"
| "run_action v Action_retrieve request pk tbl =
     (case get_object v request pk tbl of
        Inl e \<Rightarrow> (Inl e, tbl)
      | Inr obj \<Rightarrow>
          (Inr \<lparr>status = 200, data = Some (represent (vs_serializer_class v) obj)\<rparr>, tbl))"
| "run_action v Action_create request pk tbl =
     (case validate (vs_serializer_class v) (req_data request) of
        None \<Rightarrow> (Inl (ValidationError InvalidData), tbl)
      | Some row \<Rightarrow>
          (let obj = (Suc (fold max (map fst tbl) 0), row)
           in (Inr \<lparr>status = 201, data = Some (represent (vs_serializer_class v) obj)\<rparr>,
               tbl @ [obj])))"
| "run_action v Action_destroy request pk tbl =
     (case get_object v request pk tbl of
        Inl e \<Rightarrow> (Inl e, tbl)
      | Inr obj \<Rightarrow>
          (Inr \<lparr>status = 204, data = None\<rparr>, filter (\<lambda>r. fst r \<noteq> fst obj) tbl))"
| "run_action v a request pk tbl =
     (case get_object v request pk tbl of
        Inl e \<Rightarrow> (Inl e, tbl)
      | Inr obj \<Rightarrow>
          (case validate (vs_serializer_class v) (req_data request) of
             None \<Rightarrow> (Inl (ValidationError InvalidData), tbl)
           | Some row \<Rightarrow>
               (Inr \<lparr>status = 200,
                     data = Some (represent (vs_serializer_class v) (fst obj, row))\<rparr>,
                map (\<lambda>r. if fst r = fst obj then (fst obj, row) else r) tbl)))"

text \<open>
  The dispatch of a request on a route: the permission check of \<open>initial\<close>, then the
  handler bound to the method (\<open>OPTIONS\<close> has the framework's metadata handler; a method
  with no handler is not allowed).
\<close>

definition dispatch ::
  "viewset \<Rightarrow> bool \<Rightarrow> nat \<Rightarrow> request \<Rightarrow> table \<Rightarrow> (error + response) \<times> table" where
  "dispatch v detail pk request tbl =
     (if \<not> route_registered (vs_bases v) detail then (Inl Http404, tbl)
      else if \<not> vs_permission v request None then (Inl (permission_denied request), tbl)
      else if req_method request = OPTIONS
      then (Inr \<lparr>status = 200, data = Some (vs_metadata v)\<rparr>, tbl)
      else
        (case bound_action (vs_bases v) detail (req_method request) of
           None \<Rightarrow> (Inl MethodNotAllowed, tbl)
         | Some a \<Rightarrow> run_action v a request pk tbl))"

section \<open>IngredientViewSet and TagViewSet\<close>

text \<open>
  What the two classes name and the sources do not hold: the serializers, the search
  backend of the ingredients, and the project's settings (the default permission and
  filter backends, which \<open>TagViewSet\<close> and both classes inherit). They are parameters.
\<close>

record declarations =
  IngredientSerializer :: model_serializer
  TagSerializer :: model_serializer
  IngredientsSearch :: "request \<Rightarrow> table \<Rightarrow> table"
  DEFAULT_FILTER_BACKENDS :: "request \<Rightarrow> table \<Rightarrow> table"
  DEFAULT_PERMISSION_CLASSES :: "request \<Rightarrow> (nat \<times> json) option \<Rightarrow> bool"
  DEFAULT_METADATA :: json

definition IngredientViewSet :: "declarations \<Rightarrow> viewset" where
  "IngredientViewSet c =
     \<lparr>vs_bases = [ListModelMixin, RetrieveModelMixin],
      vs_permission = DEFAULT_PERMISSION_CLASSES c,
      vs_filter_backends = IngredientsSearch c,
      vs_pagination_class = None,
      vs_serializer_class = IngredientSerializer c,
      vs_metadata = DEFAULT_METADATA c\<rparr>"

definition TagViewSet :: "declarations \<Rightarrow> viewset" where
  "TagViewSet c =
     \<lparr>vs_bases = [ListModelMixin, RetrieveModelMixin],
      vs_permission = DEFAULT_PERMISSION_CLASSES c,
      vs_filter_backends = DEFAULT_FILTER_BACKENDS c,
      vs_pagination_class = None,
      vs_serializer_class = TagSerializer c,
      vs_metadata = DEFAULT_METADATA c\<rparr>"

text \<open>A request to the ingredient or the tag routes, on the database.\<close>

definition ingredient_request ::
  "declarations \<Rightarrow> bool \<Rightarrow> nat \<Rightarrow> request \<Rightarrow> db \<Rightarrow> (error + response) \<times> db" where
  "ingredient_request c detail pk request s =
     (let (r, tbl) = dispatch (IngredientViewSet c) detail pk request (ingredient_rows s)
      in (r, s\<lparr>ingredient_rows := tbl\<rparr>))"

definition tag_request ::
  "declarations \<Rightarrow> bool \<Rightarrow> nat \<Rightarrow> request \<Rightarrow> db \<Rightarrow> (error + response) \<times> db" where
  "tag_request c detail pk request s =
     (let (r, tbl) = dispatch (TagViewSet c) detail pk request (tag_rows s)
      in (r, s\<lparr>tag_rows := tbl\<rparr>))"

section \<open>RecipeViewSet: the handlers it inherits\<close>

text \<open>
  \<open>RecipeViewSet\<close> is a \<open>ModelViewSet\<close>. Besides what \<open>recipes/views.py\<close> writes out, it
  has the framework's \<open>create\<close>, \<open>update\<close> and \<open>destroy\<close> handlers and their hooks; of
  the hooks the class overrides \<open>perform_create\<close> only, so \<open>perform_update\<close> and
  \<open>perform_destroy\<close> are the mixins' own.
\<close>

datatype recipe_serializer_class = GetRecipeSerializer | PostRecipeSerializer

text \<open>\<open>get_serializer_class\<close> and \<open>get_queryset\<close> of the class.\<close>

definition get_serializer_class :: "request \<Rightarrow> recipe_serializer_class" where
  "get_serializer_class request =
     (if req_method request \<notin> set SAFE_METHODS then PostRecipeSerializer
      else GetRecipeSerializer)"

definition get_queryset :: "db \<Rightarrow> (nat \<times> recipe) list" where
  "get_queryset s = recipe_rows s"

text \<open>
  What the class names and the sources do not hold: the field validation and the
  representation of the two recipe serializers (the validation is given the instance, if
  any, and the \<open>partial\<close> flag), the filter set \<open>RecipeFilter\<close>, and what the models declare
  for the rows that refer to a deleted recipe (\<open>on_delete\<close>: the state without those
  rows, or the error that protects them). They are parameters.
\<close>

record recipe_declarations =
  recipe_run_validators ::
    "recipe_serializer_class \<Rightarrow> (nat \<times> recipe) option \<Rightarrow> bool \<Rightarrow> (string \<times> json) list
      \<Rightarrow> json + validated_data"
  recipe_to_representation :: "recipe_serializer_class \<Rightarrow> nat \<times> recipe \<Rightarrow> db \<Rightarrow> json"
  RecipeFilter :: "request \<Rightarrow> (nat \<times> recipe) list \<Rightarrow> (nat \<times> recipe) list"
  Recipe_on_delete :: "nat \<Rightarrow> db \<Rightarrow> error + db"

text \<open>
  \<open>serializer.is_valid(raise_exception=True)\<close> of a recipe serializer: as for the
  relation serializers, a body that is not a mapping is rejected before any field.
\<close>

fun recipe_is_valid ::
  "recipe_declarations \<Rightarrow> recipe_serializer_class \<Rightarrow> (nat \<times> recipe) option \<Rightarrow> bool \<Rightarrow> json
    \<Rightarrow> error + validated_data" where
  "recipe_is_valid c cls instance partial (JObj kv) =
     (case recipe_run_validators c cls instance partial kv of
        Inl e \<Rightarrow> Inl (ValidationError (FieldErrors e))
      | Inr vd \<Rightarrow> Inr vd)"
| "recipe_is_valid c cls instance partial other = Inl (ValidationError InvalidData)"

text \<open>
  Modelled from the spec: \<open>PostRecipeSerializer.update\<close> (\<open>recipes/serializers.py\<close>) is
  missing. The spec calls updating a recipe a "passthrough" to the ORM: each validated
  field is set on the instance, in the order of the data, and the instance is saved
  under its id (the row is replaced). As in \<open>recipe_create\<close>, an author that is no user
  row cannot be assigned (\<open>ValueError\<close>).
\<close>

definition recipe_update ::
  "nat \<times> recipe \<Rightarrow> validated_data \<Rightarrow> db \<Rightarrow> (error + nat \<times> recipe) \<times> db" where
  "recipe_update instance vd s =
     (case map_of vd ''author'' of
        Some (UserObj AnonymousUser) \<Rightarrow> (Inl ValueError, s)
      | other \<Rightarrow>
          (let row = dict_merge (snd instance) vd
           in (Inr (fst instance, row),
               s\<lparr>recipe_rows := AList.update (fst instance) row (recipe_rows s)\<rparr>)))"

text \<open>
  \<open>BaseSerializer.save(**kwargs)\<close> on a serializer that holds an instance: the merged
  data goes to \<open>update\<close> (to \<open>create\<close>, in \<open>serializer_save\<close>, when it holds none).
\<close>

definition serializer_save_instance ::
  "nat \<times> recipe \<Rightarrow> validated_data \<Rightarrow> validated_data \<Rightarrow> db
    \<Rightarrow> (error + nat \<times> recipe) \<times> db" where
  "serializer_save_instance instance vd kwargs s = recipe_update instance (dict_merge vd kwargs) s"

text \<open>\<open>UpdateModelMixin.perform_update\<close>, inherited: \<open>serializer.save()\<close>.\<close>

definition perform_update ::
  "nat \<times> recipe \<Rightarrow> validated_data \<Rightarrow> db \<Rightarrow> (error + nat \<times> recipe) \<times> db" where
  "perform_update instance serializer s = serializer_save_instance instance serializer [] s"



text \<open>
  \<open>GenericAPIView.get_object\<close> on the class: the filtered queryset, the lookup by the
  primary key, the object permission.
\<close>

definition RecipeViewSet_get_object ::
  "recipe_declarations \<Rightarrow> request \<Rightarrow> nat \<Rightarrow> db \<Rightarrow> error + nat \<times> recipe" where
  "RecipeViewSet_get_object c request pk s =
     (case map_of (RecipeFilter c request (get_queryset s)) pk of
        None \<Rightarrow> Inl Http404
      | Some r \<Rightarrow>
          if check_object_permissions RecipeViewSet_permission_classes request r
          then Inr (pk, r)
          else Inl (permission_denied request))"


definition RecipeViewSet_update ::
  "recipe_declarations \<Rightarrow> bool \<Rightarrow> request \<Rightarrow> nat \<Rightarrow> db \<Rightarrow> (error + response) \<times> db" where
  "RecipeViewSet_update c partial request pk s =
     (if \<not> check_permissions RecipeViewSet_permission_classes request
      then (Inl (permission_denied request), s)
      else
        (case RecipeViewSet_get_object c request pk s of
           Inl e \<Rightarrow> (Inl e, s)
         | Inr instance \<Rightarrow>
             (case recipe_is_valid c (get_serializer_class request) (Some instance) partial
                     (req_data request) of
                Inl e \<Rightarrow> (Inl e, s)
              | Inr serializer \<Rightarrow>
                  (case perform_update instance serializer s of
                     (Inl e, s') \<Rightarrow> (Inl e, s')
                   | (Inr obj, s') \<Rightarrow>
                       (Inr \<lparr>status = 200,
                             data = Some (recipe_to_representation c
                               (get_serializer_class request) obj s')\<rparr>, s')))))"


section \<open>Sequences of requests\<close>

text \<open>
  The operations of \<open>recipes/views.py\<close> that can reach the database, and the state a
  sequence of them leaves, whatever each one answers.
\<close>

datatype operation =
    Op_favorite field_decls request nat
  | Op_shopping_cart field_decls request nat
  | Op_download_shopping_cart request
  | Op_perform_create request validated_data
  | Op_ingredient declarations bool nat request
  | Op_tag declarations bool nat request

fun step :: "operation \<Rightarrow> db \<Rightarrow> db" where
  "step (Op_favorite d request pk) s = snd (favorite d request pk s)"
| "step (Op_shopping_cart d request pk) s = snd (shopping_cart d request pk s)"
| "step (Op_download_shopping_cart request) s =
     snd (download_shopping_cart (\<lambda>ingredients. ()) request s)"
| "step (Op_perform_create request serializer) s = snd (perform_create request serializer s)"
| "step (Op_ingredient c detail pk request) s = snd (ingredient_request c detail pk request s)"
| "step (Op_tag c detail pk request) s = snd (tag_request c detail pk request s)"

fun run :: "operation list \<Rightarrow> db \<Rightarrow> db" where
  "run [] s = s"
| "run (x # xs) s = run xs (step x s)"

section \<open>Example data\<close>

definition no_fields :: field_decls where
  "no_fields = (\<lambda>kv. None, \<lambda>row s. JObj [(''id'', JNum (int (rel_recipe row)))])"

definition empty_db :: db where
  "empty_db =
     \<lparr>recipe_rows = [], recipe_id_seq = 1, favorite_rows = [], shopping_cart_rows = [],
      ingredient_recipe_rows = [], ingredient_rows = [], tag_rows = []\<rparr>"

text \<open>One recipe (id 1, by user 5) with two ingredients, in the cart of user 2.\<close>

definition db1 :: db where
  "db1 =
     \<lparr>recipe_rows = [(1, [(''author'', UserObj (User 5)), (''name'', Data (JStr [98, 111, 114, 115, 99, 104]))])],
      recipe_id_seq = 2,
      favorite_rows = [],
      shopping_cart_rows = [\<lparr>rel_user = 2, rel_recipe = 1\<rparr>],
      ingredient_recipe_rows =
        [\<lparr>ir_recipe = 1, ir_ingredient = 10, ir_amount = 300\<rparr>,
         \<lparr>ir_recipe = 1, ir_ingredient = 11, ir_amount = 2\<rparr>],
      ingredient_rows = [(10, JStr [98, 101, 101, 116]), (11, JStr [111, 110, 105, 111, 110])],
      tag_rows = [(1, JStr [108, 117, 110, 99, 104])]\<rparr>"

definition post_request :: "nat \<Rightarrow> json \<Rightarrow> request" where
  "post_request u body = \<lparr>req_method = POST, req_user = User u, req_data = body\<rparr>"

definition delete_request :: "nat \<Rightarrow> request" where
  "delete_request u = \<lparr>req_method = DELETE, req_user = User u, req_data = JObj []\<rparr>"

definition get_request :: "requester \<Rightarrow> request" where
  "get_request u = \<lparr>req_method = GET, req_user = u, req_data = JObj []\<rparr>"

definition plain_declarations :: declarations where
  "plain_declarations =
     \<lparr>IngredientSerializer = \<lparr>represent = snd, validate = Some\<rparr>,
      TagSerializer = \<lparr>represent = snd, validate = Some\<rparr>,
      IngredientsSearch = (\<lambda>request tbl. tbl),
      DEFAULT_FILTER_BACKENDS = (\<lambda>request tbl. tbl),
      DEFAULT_PERMISSION_CLASSES = (\<lambda>request obj. True),
      DEFAULT_METADATA = JObj []\<rparr>"

text \<open>A viewset with every mixin, as \<open>ModelViewSet\<close> has, on the same declarations.\<close>

definition all_mixins_viewset :: viewset where
  "all_mixins_viewset =
     (IngredientViewSet plain_declarations)
       \<lparr>vs_bases := [CreateModelMixin, RetrieveModelMixin, UpdateModelMixin,
                     DestroyModelMixin, ListModelMixin]\<rparr>"


definition recipe1 :: recipe where
  "recipe1 = [(''author'', UserObj (User 5)), (''name'', Data (JStr [98, 111, 114, 115, 99, 104]))]"

text \<open>Three requests of user 2 for recipe 1: two to \<open>favorite\<close>, one to \<open>shopping_cart\<close>.\<close>

definition two_posts :: "operation list" where
  "two_posts =
     [Op_favorite no_fields (post_request 2 (JObj [])) 1,
      Op_favorite no_fields (post_request 2 (JObj [])) 1,
      Op_shopping_cart no_fields (post_request 2 (JObj [])) 1]"

text \<open>
  Recipe declarations that take the body's \<open>name\<close> as the one validated field, do not
  filter, and delete the cart, favorite and ingredient rows of a deleted recipe.
\<close>

definition name_only :: recipe_declarations where
  "name_only =
     \<lparr>recipe_run_validators =
        (\<lambda>cls instance partial kv.
           case map_of kv ''name'' of
             None \<Rightarrow> if partial then Inr [] else Inl (JObj [(''name'', JNull)])
           | Some v \<Rightarrow> Inr [(''name'', Data v)]),
      recipe_to_representation = (\<lambda>cls obj s. JNum (int (fst obj))),
      RecipeFilter = (\<lambda>request qs. qs),
      Recipe_on_delete =
        (\<lambda>pk s. Inr (s\<lparr>favorite_rows := filter (\<lambda>r. rel_recipe r \<noteq> pk) (favorite_rows s),
                        shopping_cart_rows := filter (\<lambda>r. rel_recipe r \<noteq> pk) (shopping_cart_rows s),
                        ingredient_recipe_rows :=
                          filter (\<lambda>r. ir_recipe r \<noteq> pk) (ingredient_recipe_rows s)\<rparr>))\<rparr>"

definition soup_body :: json where
  "soup_body = JObj [(''name'', JStr [115, 111, 117, 112])]"

definition put_request :: "nat \<Rightarrow> json \<Rightarrow> request" where
  "put_request u body = \<lparr>req_method = PUT, req_user = User u, req_data = body\<rparr>"

section \<open>Lemmas on the query layer and the two handlers\<close>

lemma recipe_filter_id_None: "map_of (recipe_rows s) pk = None \<Longrightarrow> recipe_filter_id pk s = []"
  by (simp add: recipe_filter_id_def)

lemma recipe_filter_id_Some:
  "map_of (recipe_rows s) pk = Some r \<Longrightarrow> recipe_filter_id pk s = [(pk, r)]"
  by (simp add: recipe_filter_id_def)

lemma add_recipe_missing:
  "map_of (recipe_rows s) pk = None \<Longrightarrow>
     add_recipe request pk model ser message s = (Inl (ValidationError (Text msg_no_recipe)), s)"
  by (simp add: add_recipe_def recipe_filter_id_None queryset_exists_def)

lemma delete_recipe_missing:
  "map_of (recipe_rows s) pk = None \<Longrightarrow>
     delete_recipe request pk model message s = (Inl Http404, s)"
  by (simp add: delete_recipe_def recipe_filter_id_None get_object_or_404_def)

lemma add_recipe_error_state:
  "add_recipe request pk model ser message s = (Inl e, s') \<Longrightarrow> s' = s"
  by (auto simp: add_recipe_def Let_def split: if_splits sum.splits requester.splits prod.splits)

lemma delete_recipe_error_state:
  "delete_recipe request pk model message s = (Inl e, s') \<Longrightarrow> s' = s"
  by (auto simp: delete_recipe_def split: if_splits sum.splits requester.splits)

lemma objects_set_objects [simp]: "objects m (set_objects m rows s) = rows"
  by (cases m) simp_all

lemma is_valid_Inr: "is_valid ser body = Inr ok \<Longrightarrow> ok"
  by (cases body) (auto split: option.splits)

lemma row_eqI: "rel_user r = u \<Longrightarrow> rel_recipe r = pk \<Longrightarrow> r = \<lparr>rel_user = u, rel_recipe = pk\<rparr>"
  by (cases r) simp

lemma filter_key_empty:
  "(u, pk) \<notin> set (map relation_key rows) \<Longrightarrow>
     filter (\<lambda>r. rel_recipe r = pk \<and> rel_user r = u) rows = []"
  by (induction rows) (auto simp: relation_key_def)

lemma filter_empty_key:
  "filter (\<lambda>r. rel_recipe r = pk \<and> rel_user r = u) rows = [] \<Longrightarrow>
     (u, pk) \<notin> set (map relation_key rows)"
  by (induction rows) (auto simp: relation_key_def split: if_splits)

lemma unique_rows_filter_le:
  "unique_rows rows \<Longrightarrow> length (filter (\<lambda>r. rel_recipe r = pk \<and> rel_user r = u) rows) \<le> 1"
proof (induction rows)
  case Nil
  then show ?case by simp
next
  case (Cons r rows)
  from Cons.prems have d: "unique_rows rows" and n: "relation_key r \<notin> set (map relation_key rows)"
    by (simp_all add: unique_rows_def)
  show ?case
  proof (cases "rel_recipe r = pk \<and> rel_user r = u")
    case True
    then have "relation_key r = (u, pk)" by (simp add: relation_key_def)
    with n have "filter (\<lambda>r. rel_recipe r = pk \<and> rel_user r = u) rows = []"
      using filter_key_empty by metis
    with True show ?thesis by simp
  next
    case False
    with Cons.IH [OF d] show ?thesis by auto
  qed
qed

lemma unique_rows_filter:
  assumes "unique_rows rows" "filter (\<lambda>r. rel_recipe r = pk \<and> rel_user r = u) rows \<noteq> []"
  shows "filter (\<lambda>r. rel_recipe r = pk \<and> rel_user r = u) rows = [\<lparr>rel_user = u, rel_recipe = pk\<rparr>]"
proof -
  let ?f = "filter (\<lambda>r. rel_recipe r = pk \<and> rel_user r = u) rows"
  have le: "length ?f \<le> 1"
    using assms(1) by (rule unique_rows_filter_le)
  obtain x where x: "?f = [x]"
  proof (cases ?f)
    case Nil
    with assms(2) show ?thesis by simp
  next
    case (Cons y ys)
    with le have "ys = []" by simp
    with Cons that show ?thesis by simp
  qed
  then have "x \<in> set ?f" by simp
  then have "rel_user x = u" "rel_recipe x = pk" by auto
  then have "x = \<lparr>rel_user = u, rel_recipe = pk\<rparr>" by (rule row_eqI)
  with x show ?thesis by simp
qed

lemma unique_rows_append:
  "unique_rows rows \<Longrightarrow> filter (\<lambda>r. rel_recipe r = pk \<and> rel_user r = u) rows = [] \<Longrightarrow>
     unique_rows (rows @ [\<lparr>rel_user = u, rel_recipe = pk\<rparr>])"
  using filter_empty_key [of pk u rows] by (auto simp: unique_rows_def relation_key_def)

lemma unique_rows_remove1: "unique_rows rows \<Longrightarrow> unique_rows (remove1 x rows)"
  unfolding unique_rows_def
  by (induction rows) (auto dest: notin_set_remove1 simp: image_iff)

lemma length_remove1_mem: "x \<in> set xs \<Longrightarrow> Suc (length (remove1 x xs)) = length xs"
  by (simp add: length_remove1) (cases xs; auto)

lemma add_recipe_existing:
  assumes "map_of (recipe_rows s) pk = Some r" "req_user request = User u"
  shows "add_recipe request pk model ser message s =
     (if relation_filter model pk u s \<noteq> []
      then (Inl (ValidationError (Text (msg_already_added @ message))), s)
      else case is_valid ser (req_data request) of
             Inl e \<Rightarrow> (Inl e, s)
           | Inr ok \<Rightarrow>
               (Inr \<lparr>status = 201,
                     data = Some (to_representation ser \<lparr>rel_user = u, rel_recipe = pk\<rparr>
                       (snd (save ser u pk s)))\<rparr>,
                snd (save ser u pk s)))"
  using assms
  by (auto simp: add_recipe_def recipe_filter_id_Some queryset_exists_def save_def Let_def
      HTTP_201_CREATED_def split: sum.splits dest: is_valid_Inr)

lemma delete_recipe_existing:
  assumes "map_of (recipe_rows s) pk = Some r" "req_user request = User u"
    "unique_rows (objects model s)"
  shows "delete_recipe request pk model message s =
     (if relation_filter model pk u s = []
      then (Inl (ValidationError (Text (msg_not_added @ message))), s)
      else (Inr \<lparr>status = 204, data = None\<rparr>,
            set_objects model (remove1 \<lparr>rel_user = u, rel_recipe = pk\<rparr> (objects model s)) s))"
proof (cases "relation_filter model pk u s = []")
  case True
  with assms(1,2) show ?thesis
    by (simp add: delete_recipe_def recipe_filter_id_Some get_object_or_404_def queryset_exists_def)
next
  case False
  then have "relation_filter model pk u s = [\<lparr>rel_user = u, rel_recipe = pk\<rparr>]"
    using unique_rows_filter [OF assms(3)] by (simp add: relation_filter_def)
  with assms(1,2) show ?thesis
    by (simp add: delete_recipe_def recipe_filter_id_Some get_object_or_404_def queryset_exists_def
        HTTP_204_NO_CONTENT_def)
qed

lemma filter_remove1_unique:
  assumes "unique_rows rows"
  shows "filter (\<lambda>r. rel_recipe r = pk \<and> rel_user r = u)
           (remove1 \<lparr>rel_user = u, rel_recipe = pk\<rparr> rows) = []"
proof (cases "filter (\<lambda>r. rel_recipe r = pk \<and> rel_user r = u) rows = []")
  case True
  then show ?thesis by (simp add: filter_remove1)
next
  case False
  with assms have "filter (\<lambda>r. rel_recipe r = pk \<and> rel_user r = u) rows
      = [\<lparr>rel_user = u, rel_recipe = pk\<rparr>]"
    by (rule unique_rows_filter)
  then show ?thesis by (simp add: filter_remove1)
qed

lemma filter_nonempty_mem:
  "filter (\<lambda>r. rel_recipe r = pk \<and> rel_user r = u) rows \<noteq> [] \<Longrightarrow>
     \<lparr>rel_user = u, rel_recipe = pk\<rparr> \<in> set rows"
proof -
  assume "filter (\<lambda>r. rel_recipe r = pk \<and> rel_user r = u) rows \<noteq> []"
  then obtain x where "x \<in> set rows" "rel_recipe x = pk" "rel_user x = u"
    by (auto simp: filter_empty_conv)
  moreover from this have "x = \<lparr>rel_user = u, rel_recipe = pk\<rparr>"
    by (simp add: row_eqI)
  ultimately show ?thesis by simp
qed

lemma add_recipe_success:
  assumes "add_recipe request pk model ser message s = (Inr resp, s')"
  shows "status resp = 201
       \<and> (\<exists>u. req_user request = User u
            \<and> \<lparr>rel_user = u, rel_recipe = pk\<rparr> \<in> set (objects (meta_model ser) s')
            \<and> data resp = Some (to_representation ser \<lparr>rel_user = u, rel_recipe = pk\<rparr> s'))"
proof (cases "map_of (recipe_rows s) pk")
  case None
  with assms show ?thesis by (simp add: add_recipe_missing)
next
  case (Some r)
  show ?thesis
  proof (cases "req_user request")
    case AnonymousUser
    with Some assms show ?thesis
      by (simp add: add_recipe_def recipe_filter_id_Some queryset_exists_def)
  next
    case (User u)
    with assms add_recipe_existing [OF Some User, of model ser message] show ?thesis
      by (auto simp: save_def Let_def split: if_splits sum.splits)
  qed
qed

lemma delete_recipe_success:
  assumes "delete_recipe request pk model message s = (Inr resp, s')"
  shows "status resp = 204 \<and> data resp = None"
  using assms
  by (auto simp: delete_recipe_def HTTP_204_NO_CONTENT_def
      split: sum.splits requester.splits if_splits)

section \<open>A recipe id that does not exist\<close>

text \<open>
  Claim C1, as the code has it. When no recipe has the id of the request, the two paths
  differ: \<open>delete_recipe\<close> looks the recipe up with \<open>get_object_or_404\<close> and answers
  404; \<open>add_recipe\<close> runs its own existence check first and raises the validation error
  with the text of \<open>msg_no_recipe\<close>, which the framework answers with 400. Neither
  changes the state. So \<open>POST\<close> to \<open>favorite\<close> or \<open>shopping_cart\<close> is a validation
  error, and every other method of the two actions is a 404.
\<close>

theorem missing_recipe_add_400_delete_404:
  assumes "map_of (recipe_rows s) pk = None"
  shows "add_recipe request pk model ser message s
           = (Inl (ValidationError (Text msg_no_recipe)), s)
       \<and> delete_recipe request pk model message s = (Inl Http404, s)
       \<and> favorite d request pk s
           = (if req_method request = POST
              then (Inl (ValidationError (Text msg_no_recipe)), s) else (Inl Http404, s))
       \<and> shopping_cart d request pk s
           = (if req_method request = POST
              then (Inl (ValidationError (Text msg_no_recipe)), s) else (Inl Http404, s))
       \<and> http_status (Inl (ValidationError (Text msg_no_recipe))) = 400
       \<and> http_status (Inl Http404) = 404"
  using assms
  by (simp add: favorite_def shopping_cart_def add_recipe_missing delete_recipe_missing
      http_status_def)

theorem missing_recipe_witness:
  "map_of (recipe_rows db1) 7 = None
   \<and> favorite no_fields (post_request 2 (JObj [])) 7 db1
       = (Inl (ValidationError (Text msg_no_recipe)), db1)
   \<and> shopping_cart no_fields (delete_request 2) 7 db1 = (Inl Http404, db1)"
proof -
  have h: "map_of (recipe_rows db1) 7 = None"
    by (simp add: db1_def)
  show ?thesis
    using h missing_recipe_add_400_delete_404 [OF h, of "post_request 2 (JObj [])" _ _ _ no_fields]
      missing_recipe_add_400_delete_404 [OF h, of "delete_request 2" _ _ _ no_fields]
    by (simp add: post_request_def delete_request_def)
qed

text \<open>
  The claim as stated has the add path answer 404 as well. On \<open>db1\<close>, which has no
  recipe 7, \<open>POST\<close> to either action answers 400.
\<close>

theorem add_missing_recipe_is_400:
  "map_of (recipe_rows db1) 7 = None
   \<and> http_status (fst (favorite no_fields (post_request 2 (JObj [])) 7 db1)) = 400
   \<and> http_status (fst (shopping_cart no_fields (post_request 2 (JObj [])) 7 db1)) = 400
   \<and> http_status (fst (favorite no_fields (post_request 2 (JObj [])) 7 db1)) \<noteq> 404"
  by (simp add: db1_def favorite_def shopping_cart_def add_recipe_def recipe_filter_id_def
      queryset_exists_def post_request_def http_status_def)

section \<open>The toggle: check, then one row\<close>

text \<open>
  Claim C2, as the code has it. For an authenticated user and an existing recipe, in a
  state where the relation table holds at most one row per pair: \<open>add_recipe\<close> raises the
  validation error "already added" when the row exists; otherwise it validates the
  request body with the relation's serializer, and raises the serializer's validation
  error, leaving the state as it was, when the body is rejected; otherwise it appends
  exactly one row, the pair of the user and the recipe, and changes nothing else.
  \<open>delete_recipe\<close> raises the validation error "not added" when the row does not exist,
  and otherwise removes exactly that one row and changes nothing else.
\<close>

theorem toggle_checks_then_changes_one_row:
  assumes "map_of (recipe_rows s) pk = Some r" and "req_user request = User u"
    and "meta_model ser = model" and "unique_rows (objects model s)"
  shows "(relation_filter model pk u s \<noteq> [] \<longrightarrow>
            add_recipe request pk model ser message s
              = (Inl (ValidationError (Text (msg_already_added @ message))), s))
       \<and> (relation_filter model pk u s = [] \<longrightarrow>
            (\<forall>e. is_valid ser (req_data request) = Inl e \<longrightarrow>
               add_recipe request pk model ser message s = (Inl e, s)))
       \<and> (relation_filter model pk u s = [] \<and> is_valid ser (req_data request) = Inr True \<longrightarrow>
            (\<exists>resp s'. add_recipe request pk model ser message s = (Inr resp, s')
               \<and> objects model s' = objects model s @ [\<lparr>rel_user = u, rel_recipe = pk\<rparr>]
               \<and> s' = set_objects model (objects model s') s))
       \<and> (relation_filter model pk u s = [] \<longrightarrow>
            delete_recipe request pk model message s
              = (Inl (ValidationError (Text (msg_not_added @ message))), s))
       \<and> (relation_filter model pk u s \<noteq> [] \<longrightarrow>
            (\<exists>resp s'. delete_recipe request pk model message s = (Inr resp, s')
               \<and> objects model s' = remove1 \<lparr>rel_user = u, rel_recipe = pk\<rparr> (objects model s)
               \<and> Suc (length (objects model s')) = length (objects model s)
               \<and> relation_filter model pk u s' = []
               \<and> s' = set_objects model (objects model s') s))"
proof -
  note add = add_recipe_existing [OF assms(1,2), of model ser message]
  note del = delete_recipe_existing [OF assms(1,2,4), of message]
  have a1: "relation_filter model pk u s \<noteq> [] \<longrightarrow>
      add_recipe request pk model ser message s
        = (Inl (ValidationError (Text (msg_already_added @ message))), s)"
    by (simp add: add)
  have a2: "relation_filter model pk u s = [] \<longrightarrow>
      (\<forall>e. is_valid ser (req_data request) = Inl e \<longrightarrow>
         add_recipe request pk model ser message s = (Inl e, s))"
    by (simp add: add)
  have a3: "relation_filter model pk u s = [] \<and> is_valid ser (req_data request) = Inr True \<longrightarrow>
      (\<exists>resp s'. add_recipe request pk model ser message s = (Inr resp, s')
         \<and> objects model s' = objects model s @ [\<lparr>rel_user = u, rel_recipe = pk\<rparr>]
         \<and> s' = set_objects model (objects model s') s)"
    using assms(3) by (auto simp: add save_def Let_def)
  have d1: "relation_filter model pk u s = [] \<longrightarrow>
      delete_recipe request pk model message s
        = (Inl (ValidationError (Text (msg_not_added @ message))), s)"
    by (simp add: del)
  have d2: "relation_filter model pk u s \<noteq> [] \<longrightarrow>
      (\<exists>resp s'. delete_recipe request pk model message s = (Inr resp, s')
         \<and> objects model s' = remove1 \<lparr>rel_user = u, rel_recipe = pk\<rparr> (objects model s)
         \<and> Suc (length (objects model s')) = length (objects model s)
         \<and> relation_filter model pk u s' = []
         \<and> s' = set_objects model (objects model s') s)"
  proof
    assume ne: "relation_filter model pk u s \<noteq> []"
    then have mem: "\<lparr>rel_user = u, rel_recipe = pk\<rparr> \<in> set (objects model s)"
      unfolding relation_filter_def by (rule filter_nonempty_mem)
    let ?s' = "set_objects model (remove1 \<lparr>rel_user = u, rel_recipe = pk\<rparr> (objects model s)) s"
    have "delete_recipe request pk model message s = (Inr \<lparr>status = 204, data = None\<rparr>, ?s')"
      using ne by (simp add: del)
    moreover have "Suc (length (objects model ?s')) = length (objects model s)"
      using mem by (simp add: length_remove1_mem)
    moreover have "relation_filter model pk u ?s' = []"
      using assms(4) by (simp add: relation_filter_def filter_remove1_unique)
    ultimately show "\<exists>resp s'. delete_recipe request pk model message s = (Inr resp, s')
         \<and> objects model s' = remove1 \<lparr>rel_user = u, rel_recipe = pk\<rparr> (objects model s)
         \<and> Suc (length (objects model s')) = length (objects model s)
         \<and> relation_filter model pk u s' = []
         \<and> s' = set_objects model (objects model s') s"
      by simp
  qed
  from a1 a2 a3 d1 d2 show ?thesis by blast
qed

theorem toggle_one_row_witness:
  "map_of (recipe_rows db1) 1 \<noteq> None
   \<and> unique_rows (objects ShoppingCart db1) \<and> unique_rows (objects Favorite db1)
   \<and> add_recipe (post_request 2 (JObj [])) 1 ShoppingCart (ShoppingCartSerializer no_fields)
         message_shopping_cart db1
       = (Inl (ValidationError (Text (msg_already_added @ message_shopping_cart))), db1)
   \<and> (\<exists>resp s'. delete_recipe (post_request 2 (JObj [])) 1 ShoppingCart message_shopping_cart db1
         = (Inr resp, s') \<and> objects ShoppingCart s' = [])
   \<and> (\<exists>resp s'. add_recipe (post_request 2 (JObj [])) 1 Favorite (FavoriteSerializer no_fields)
         message_favorite db1 = (Inr resp, s')
         \<and> objects Favorite s' = [\<lparr>rel_user = 2, rel_recipe = 1\<rparr>])
   \<and> delete_recipe (post_request 2 (JObj [])) 1 Favorite message_favorite db1
       = (Inl (ValidationError (Text (msg_not_added @ message_favorite))), db1)"
proof -
  obtain r where r: "map_of (recipe_rows db1) 1 = Some r"
    by (simp add: db1_def)
  have u: "req_user (post_request 2 (JObj [])) = User 2"
    by (simp add: post_request_def)
  have mc: "meta_model (ShoppingCartSerializer no_fields) = ShoppingCart"
    by (simp add: ShoppingCartSerializer_def)
  have mf: "meta_model (FavoriteSerializer no_fields) = Favorite"
    by (simp add: FavoriteSerializer_def)
  have uc: "unique_rows (objects ShoppingCart db1)"
    by (simp add: db1_def unique_rows_def relation_key_def)
  have uf: "unique_rows (objects Favorite db1)"
    by (simp add: db1_def unique_rows_def)
  have fc: "relation_filter ShoppingCart 1 2 db1 \<noteq> []"
    by (simp add: relation_filter_def db1_def)
  have ff: "relation_filter Favorite 1 2 db1 = []"
    by (simp add: relation_filter_def db1_def)
  have v: "is_valid (FavoriteSerializer no_fields) (req_data (post_request 2 (JObj []))) = Inr True"
    by (simp add: post_request_def FavoriteSerializer_def no_fields_def)
  have oc: "remove1 \<lparr>rel_user = 2, rel_recipe = 1\<rparr> (objects ShoppingCart db1) = []"
    by (simp add: db1_def)
  have ofav: "objects Favorite db1 = []"
    by (simp add: db1_def)
  from toggle_checks_then_changes_one_row [OF r u mc uc, of message_shopping_cart]
    toggle_checks_then_changes_one_row [OF r u mf uf, of message_favorite]
    r uc uf fc ff v oc ofav
  show ?thesis by auto
qed

text \<open>
  The claim as stated has the add operation insert a row whenever none exists. A body
  that is not a JSON object is rejected by every serializer: recipe 1 exists, user 2 has
  no favorite row for it, and \<open>POST\<close> with the body \<open>[]\<close> raises and inserts nothing.
\<close>

theorem add_rejected_body_inserts_nothing:
  "map_of (recipe_rows db1) 1 \<noteq> None
   \<and> relation_filter Favorite 1 2 db1 = []
   \<and> favorite no_fields (post_request 2 (JArr [])) 1 db1 = (Inl (ValidationError InvalidData), db1)"
  by (simp add: db1_def favorite_def add_recipe_def recipe_filter_id_def relation_filter_def
      queryset_exists_def post_request_def FavoriteSerializer_def)

section \<open>The uniqueness invariant is kept\<close>

lemma unique_relations_set_objects:
  "unique_relations s \<Longrightarrow> unique_rows rows \<Longrightarrow> unique_relations (set_objects m rows s)"
  by (cases m) (simp_all add: unique_relations_def)

lemma unique_relations_objects: "unique_relations s \<Longrightarrow> unique_rows (objects m s)"
  by (cases m) (simp_all add: unique_relations_def)

lemma add_recipe_unique:
  assumes "unique_relations s" and "meta_model ser = model"
  shows "unique_relations (snd (add_recipe request pk model ser message s))"
proof (cases "map_of (recipe_rows s) pk")
  case None
  with assms(1) show ?thesis by (simp add: add_recipe_missing)
next
  case (Some r)
  show ?thesis
  proof (cases "req_user request")
    case AnonymousUser
    with Some assms(1) show ?thesis
      by (simp add: add_recipe_def recipe_filter_id_Some queryset_exists_def)
  next
    case (User u)
    show ?thesis
    proof (cases "relation_filter model pk u s = []")
      case False
      with assms(1) show ?thesis
        by (simp add: add_recipe_existing [OF Some User])
    next
      case True
      then have "unique_rows (objects model s @ [\<lparr>rel_user = u, rel_recipe = pk\<rparr>])"
        using unique_relations_objects [OF assms(1), of model]
        by (simp add: relation_filter_def unique_rows_append)
      then have "unique_relations (snd (save ser u pk s))"
        using assms by (simp add: save_def Let_def unique_relations_set_objects)
      with True assms(1) show ?thesis
        by (simp add: add_recipe_existing [OF Some User] split: sum.splits)
    qed
  qed
qed

lemma delete_recipe_state:
  "snd (delete_recipe request pk model message s) = s
   \<or> (\<exists>obj. snd (delete_recipe request pk model message s)
         = set_objects model (remove1 obj (objects model s)) s)"
  by (auto simp: delete_recipe_def split: sum.splits requester.splits)

lemma delete_recipe_unique:
  assumes "unique_relations s"
  shows "unique_relations (snd (delete_recipe request pk model message s))"
  using delete_recipe_state [of request pk model message s] assms
    unique_rows_remove1 [OF unique_relations_objects [OF assms, of model]]
  by (auto simp: unique_relations_set_objects)

lemma favorite_unique: "unique_relations s \<Longrightarrow> unique_relations (snd (favorite d request pk s))"
  by (simp add: favorite_def add_recipe_unique delete_recipe_unique FavoriteSerializer_def)

lemma shopping_cart_unique:
  "unique_relations s \<Longrightarrow> unique_relations (snd (shopping_cart d request pk s))"
  by (simp add: shopping_cart_def add_recipe_unique delete_recipe_unique ShoppingCartSerializer_def)

lemma download_state: "snd (download_shopping_cart download request s) = s"
  by (simp add: download_shopping_cart_def Let_def split: requester.splits)

lemma perform_create_relations:
  "favorite_rows (snd (perform_create request vd s)) = favorite_rows s
   \<and> shopping_cart_rows (snd (perform_create request vd s)) = shopping_cart_rows s"
  by (simp add: perform_create_def serializer_save_def recipe_create_def Let_def
      split: option.splits field_value.splits requester.splits)

lemma ingredient_request_relations:
  "favorite_rows (snd (ingredient_request c detail pk request s)) = favorite_rows s
   \<and> shopping_cart_rows (snd (ingredient_request c detail pk request s)) = shopping_cart_rows s"
  by (simp add: ingredient_request_def split: prod.splits)

lemma tag_request_relations:
  "favorite_rows (snd (tag_request c detail pk request s)) = favorite_rows s
   \<and> shopping_cart_rows (snd (tag_request c detail pk request s)) = shopping_cart_rows s"
  by (simp add: tag_request_def split: prod.splits)

lemma step_unique: "unique_relations s \<Longrightarrow> unique_relations (step x s)"
proof (cases x)
  case (Op_favorite d request pk)
  assume "unique_relations s"
  with Op_favorite show ?thesis by (simp add: favorite_unique)
next
  case (Op_shopping_cart d request pk)
  assume "unique_relations s"
  with Op_shopping_cart show ?thesis by (simp add: shopping_cart_unique)
next
  case (Op_download_shopping_cart request)
  assume "unique_relations s"
  with Op_download_shopping_cart show ?thesis by (simp add: download_state)
next
  case (Op_perform_create request vd)
  assume "unique_relations s"
  with Op_perform_create show ?thesis
    by (simp add: unique_relations_def perform_create_relations)
next
  case (Op_ingredient c detail pk request)
  assume "unique_relations s"
  with Op_ingredient show ?thesis
    by (simp add: unique_relations_def ingredient_request_relations)
next
  case (Op_tag c detail pk request)
  assume "unique_relations s"
  with Op_tag show ?thesis
    by (simp add: unique_relations_def tag_request_relations)
qed

lemma run_unique: "unique_relations s \<Longrightarrow> unique_relations (run xs s)"
  by (induction xs arbitrary: s) (simp_all add: step_unique)

text \<open>
  Claim C3. Requests are handled one at a time. From a state in which no (user, recipe)
  pair has two \<open>Favorite\<close> rows or two \<open>ShoppingCart\<close> rows, every sequence of
  operations of the views leaves such a state: for every user and recipe there is at
  most one row of either relation. The insert of \<open>add_recipe\<close> is the only one, and it
  runs only after the existence query for the same pair found nothing.
\<close>

theorem uniqueness_preserved:
  assumes "unique_relations s"
  shows "unique_relations (run xs s)
       \<and> length (relation_filter model recipe_pk user_pk (run xs s)) \<le> 1"
proof -
  have u: "unique_relations (run xs s)"
    using assms by (rule run_unique)
  then have "unique_rows (objects model (run xs s))"
    by (rule unique_relations_objects)
  then have "length (relation_filter model recipe_pk user_pk (run xs s)) \<le> 1"
    unfolding relation_filter_def by (rule unique_rows_filter_le)
  with u show ?thesis by simp
qed

lemma run_two_posts:
  "favorite_rows (run two_posts db1) = [\<lparr>rel_user = 2, rel_recipe = 1\<rparr>]
   \<and> shopping_cart_rows (run two_posts db1) = [\<lparr>rel_user = 2, rel_recipe = 1\<rparr>]"
  by (simp add: two_posts_def db1_def favorite_def shopping_cart_def add_recipe_def
      recipe_filter_id_def relation_filter_def queryset_exists_def post_request_def
      FavoriteSerializer_def ShoppingCartSerializer_def no_fields_def save_def Let_def)

theorem uniqueness_preserved_witness:
  "unique_relations db1
   \<and> unique_relations (run two_posts db1)
   \<and> length (relation_filter Favorite 1 2 (run two_posts db1)) \<le> 1
   \<and> favorite_rows (run two_posts db1) = [\<lparr>rel_user = 2, rel_recipe = 1\<rparr>]"
proof -
  have u: "unique_relations db1"
    by (simp add: unique_relations_def unique_rows_def db1_def)
  from uniqueness_preserved [OF u, of two_posts Favorite 1 2] u run_two_posts
  show ?thesis by simp
qed

section \<open>Statuses of the successful toggle\<close>

text \<open>
  Claim C4. Whenever \<open>favorite\<close> or \<open>shopping_cart\<close> returns a response to a \<open>POST\<close>,
  its status is 201 and its body is the serializer's representation of the new relation
  row, which is in the table afterwards; whenever they return a response to another
  method (the delete path), its status is 204 and it has no body.
\<close>

theorem toggle_success_status:
  "(favorite d request pk s = (Inr resp, s') \<and> req_method request = POST \<longrightarrow>
      status resp = 201
      \<and> (\<exists>u. req_user request = User u
           \<and> \<lparr>rel_user = u, rel_recipe = pk\<rparr> \<in> set (favorite_rows s')
           \<and> data resp = Some (to_representation (FavoriteSerializer d)
                 \<lparr>rel_user = u, rel_recipe = pk\<rparr> s')))
   \<and> (shopping_cart d request pk s = (Inr resp, s') \<and> req_method request = POST \<longrightarrow>
      status resp = 201
      \<and> (\<exists>u. req_user request = User u
           \<and> \<lparr>rel_user = u, rel_recipe = pk\<rparr> \<in> set (shopping_cart_rows s')
           \<and> data resp = Some (to_representation (ShoppingCartSerializer d)
                 \<lparr>rel_user = u, rel_recipe = pk\<rparr> s')))
   \<and> (favorite d request pk s = (Inr resp, s') \<and> req_method request \<noteq> POST \<longrightarrow>
      status resp = 204 \<and> data resp = None)
   \<and> (shopping_cart d request pk s = (Inr resp, s') \<and> req_method request \<noteq> POST \<longrightarrow>
      status resp = 204 \<and> data resp = None)"
proof -
  have f: "meta_model (FavoriteSerializer d) = Favorite"
    and c: "meta_model (ShoppingCartSerializer d) = ShoppingCart"
    by (simp_all add: FavoriteSerializer_def ShoppingCartSerializer_def)
  show ?thesis
    using add_recipe_success [of request pk Favorite "FavoriteSerializer d" message_favorite s resp s']
      add_recipe_success [of request pk ShoppingCart "ShoppingCartSerializer d"
        message_shopping_cart s resp s']
      delete_recipe_success [of request pk Favorite message_favorite s resp s']
      delete_recipe_success [of request pk ShoppingCart message_shopping_cart s resp s']
    by (simp add: favorite_def shopping_cart_def f c)
qed

theorem toggle_success_status_witness:
  "(\<exists>resp s'. favorite no_fields (post_request 2 (JObj [])) 1 db1 = (Inr resp, s')
       \<and> status resp = 201 \<and> data resp = Some (JObj [(''id'', JNum 1)])
       \<and> favorite_rows s' = [\<lparr>rel_user = 2, rel_recipe = 1\<rparr>])
   \<and> (\<exists>resp s'. shopping_cart no_fields (delete_request 2) 1 db1 = (Inr resp, s')
       \<and> status resp = 204 \<and> data resp = None \<and> shopping_cart_rows s' = [])"
proof -
  obtain resp s' where a: "favorite no_fields (post_request 2 (JObj [])) 1 db1 = (Inr resp, s')"
    and rows: "favorite_rows s' = [\<lparr>rel_user = 2, rel_recipe = 1\<rparr>]"
    by (simp add: db1_def favorite_def add_recipe_def recipe_filter_id_def relation_filter_def
        queryset_exists_def post_request_def FavoriteSerializer_def no_fields_def save_def
        Let_def)
  have m: "req_method (post_request 2 (JObj [])) = POST"
    and u: "req_user (post_request 2 (JObj [])) = User 2"
    by (simp_all add: post_request_def)
  from toggle_success_status [of no_fields "post_request 2 (JObj [])" 1 db1 resp s'] a m u
  have "status resp = 201
      \<and> data resp = Some (to_representation (FavoriteSerializer no_fields)
            \<lparr>rel_user = 2, rel_recipe = 1\<rparr> s')"
    by auto
  then have 1: "status resp = 201 \<and> data resp = Some (JObj [(''id'', JNum 1)])"
    by (simp add: FavoriteSerializer_def no_fields_def)
  obtain resp2 s2 where b: "shopping_cart no_fields (delete_request 2) 1 db1 = (Inr resp2, s2)"
    and rows2: "shopping_cart_rows s2 = []"
    by (simp add: db1_def shopping_cart_def delete_recipe_def recipe_filter_id_def
        relation_filter_def queryset_exists_def delete_request_def get_object_or_404_def)
  have m2: "req_method (delete_request 2) \<noteq> POST"
    by (simp add: delete_request_def)
  from toggle_success_status [of no_fields "delete_request 2" 1 db1 resp2 s2] b m2
  have 2: "status resp2 = 204 \<and> data resp2 = None"
    by simp
  from a rows 1 b rows2 2 show ?thesis by blast
qed

section \<open>Recipe create, update and delete\<close>


lemma dict_merge_Nil: "dict_merge vd [] = vd"
  by (simp add: dict_merge_def)




lemma perform_update_refused:
  "map_of vd ''author'' = Some (UserObj AnonymousUser) \<Longrightarrow>
     perform_update (pk, old) vd s = (Inl ValueError, s)"
  by (simp add: perform_update_def serializer_save_instance_def dict_merge_Nil recipe_update_def)











lemma update_refused_for_other_user:
  "RecipeViewSet_update name_only False (put_request 2 soup_body) 1 db1 = (Inl PermissionDenied, db1)"
  by (simp add: RecipeViewSet_update_def RecipeViewSet_get_object_def get_queryset_def
      check_permissions_def check_object_permissions_def RecipeViewSet_permission_classes_def
      IsAuthorOrReadOnly_has_permission_def IsAuthorOrReadOnly_has_object_permission_def
      SAFE_METHODS_def name_only_def put_request_def soup_body_def db1_def permission_denied_def)


section \<open>Who may write a recipe\<close>

text \<open>
  Claim C6. With the permission classes of \<open>RecipeViewSet\<close>: a request with a safe
  method passes for everyone, on the list and on any recipe; a request with another
  method passes on the collection (create) exactly when the requester is authenticated,
  and on a recipe (update, delete) exactly when the requester is authenticated and is
  the recipe's author.
\<close>

theorem recipe_write_permission:
  "(req_method request \<in> set SAFE_METHODS \<longrightarrow> recipe_permitted request target)
   \<and> (req_method request \<notin> set SAFE_METHODS \<longrightarrow>
        (recipe_permitted request None \<longleftrightarrow> is_authenticated (req_user request)))
   \<and> (req_method request \<notin> set SAFE_METHODS \<longrightarrow>
        (recipe_permitted request (Some obj) \<longleftrightarrow>
           is_authenticated (req_user request)
           \<and> map_of obj ''author'' = Some (UserObj (req_user request))))"
  by (auto simp: recipe_permitted_def check_permissions_def check_object_permissions_def
      RecipeViewSet_permission_classes_def IsAuthorOrReadOnly_has_permission_def
      IsAuthorOrReadOnly_has_object_permission_def split: option.splits)

theorem recipe_write_permission_witness:
  "recipe_permitted (get_request AnonymousUser) (Some recipe1)
   \<and> recipe_permitted (get_request AnonymousUser) None
   \<and> \<not> recipe_permitted \<lparr>req_method = POST, req_user = AnonymousUser, req_data = JObj []\<rparr> None
   \<and> recipe_permitted (post_request 2 (JObj [])) None
   \<and> \<not> recipe_permitted (delete_request 2) (Some recipe1)
   \<and> recipe_permitted (delete_request 5) (Some recipe1)"
proof -
  have safe: "req_method (get_request AnonymousUser) \<in> set SAFE_METHODS"
    by (simp add: get_request_def SAFE_METHODS_def)
  have p: "req_method (post_request 2 (JObj [])) \<notin> set SAFE_METHODS"
    "req_method \<lparr>req_method = POST, req_user = AnonymousUser, req_data = JObj []\<rparr> \<notin> set SAFE_METHODS"
    "req_method (delete_request 2) \<notin> set SAFE_METHODS"
    "req_method (delete_request 5) \<notin> set SAFE_METHODS"
    by (simp_all add: post_request_def delete_request_def SAFE_METHODS_def)
  have u: "req_user (post_request 2 (JObj [])) = User 2"
    "req_user (delete_request 2) = User 2" "req_user (delete_request 5) = User 5"
    "req_user \<lparr>req_method = POST, req_user = AnonymousUser, req_data = JObj []\<rparr> = AnonymousUser"
    by (simp_all add: post_request_def delete_request_def)
  have a: "map_of recipe1 ''author'' = Some (UserObj (User 5))"
    by (simp add: recipe1_def)
  from recipe_write_permission [of "get_request AnonymousUser" "Some recipe1"]
    recipe_write_permission [of "get_request AnonymousUser" None]
    recipe_write_permission [of "\<lparr>req_method = POST, req_user = AnonymousUser, req_data = JObj []\<rparr>"]
    recipe_write_permission [of "post_request 2 (JObj [])"]
    recipe_write_permission [of "delete_request 2" _ recipe1]
    recipe_write_permission [of "delete_request 5" _ recipe1]
    safe p u a
  show ?thesis by simp
qed

section \<open>The shopping list\<close>

lemma append_ingredients_map:
  "append_ingredients ids recipes s ingredients =
     ingredients @ map (\<lambda>i. filter (\<lambda>ir. ir_recipe ir = recipes ! i) (ingredient_recipe_rows s)) ids"
  by (induction ids arbitrary: ingredients) simp_all

lemma map_index_range: "map (\<lambda>i. f (xs ! i)) [0..<length xs] = map f xs"
  by (rule nth_equalityI) simp_all

text \<open>
  Claim C7. For an authenticated user, \<open>download_shopping_cart\<close> answers with what
  \<open>download\<close> returns on the list that has, for each cart row of the user in the order
  of the rows, the ingredient rows of that row's recipe; the state is not changed.
\<close>

theorem download_hands_over_the_cart:
  assumes "req_user request = User u"
  shows "download_shopping_cart download request s = (Inr (download (shopping_list_spec u s)), s)"
proof -
  let ?cart = "filter (\<lambda>obj. rel_user obj = u) (shopping_cart_rows s)"
  let ?f = "\<lambda>pk. filter (\<lambda>ir. ir_recipe ir = pk) (ingredient_recipe_rows s)"
  have "append_ingredients [0..<length (map rel_recipe ?cart)] (map rel_recipe ?cart) s []
      = map (\<lambda>i. ?f (map rel_recipe ?cart ! i)) [0..<length (map rel_recipe ?cart)]"
    by (simp only: append_ingredients_map append_Nil)
  also have "\<dots> = map ?f (map rel_recipe ?cart)"
    by (rule map_index_range)
  also have "\<dots> = shopping_list_spec u s"
    by (simp add: shopping_list_spec_def comp_def)
  finally show ?thesis
    using assms by (simp add: download_shopping_cart_def Let_def)
qed

theorem download_witness:
  "req_user (get_request (User 2)) = User 2
   \<and> download_shopping_cart length (get_request (User 2)) db1 = (Inr 1, db1)
   \<and> download_shopping_cart concat (get_request (User 2)) db1
       = (Inr [\<lparr>ir_recipe = 1, ir_ingredient = 10, ir_amount = 300\<rparr>,
               \<lparr>ir_recipe = 1, ir_ingredient = 11, ir_amount = 2\<rparr>], db1)"
proof -
  have u: "req_user (get_request (User 2)) = User 2"
    by (simp add: get_request_def)
  have l: "shopping_list_spec 2 db1
      = [[\<lparr>ir_recipe = 1, ir_ingredient = 10, ir_amount = 300\<rparr>,
          \<lparr>ir_recipe = 1, ir_ingredient = 11, ir_amount = 2\<rparr>]]"
    by (simp add: shopping_list_spec_def db1_def)
  from download_hands_over_the_cart [OF u, of length db1]
    download_hands_over_the_cart [OF u, of concat db1] u l
  show ?thesis by simp
qed

section \<open>A failing toggle changes nothing\<close>

text \<open>
  Claim C8. When \<open>add_recipe\<close> or \<open>delete_recipe\<close>, or one of the two actions built on
  them, raises (a validation error for a duplicate, a missing membership, a missing
  recipe on add or a rejected body, or any other error), the state it leaves is the
  state it started from.
\<close>

theorem failed_toggle_keeps_state:
  "(add_recipe request pk model ser message s = (Inl e, s') \<longrightarrow> s' = s)
   \<and> (delete_recipe request pk model message s = (Inl e, s') \<longrightarrow> s' = s)
   \<and> (favorite d request pk s = (Inl e, s') \<longrightarrow> s' = s)
   \<and> (shopping_cart d request pk s = (Inl e, s') \<longrightarrow> s' = s)"
  using add_recipe_error_state delete_recipe_error_state
  by (auto simp: favorite_def shopping_cart_def split: if_splits)

theorem failed_toggle_keeps_state_witness:
  "(\<exists>e. favorite no_fields (post_request 2 (JArr [])) 1 db1 = (Inl e, db1))
   \<and> (\<exists>e. shopping_cart no_fields (post_request 2 (JObj [])) 1 db1 = (Inl e, db1))
   \<and> (\<exists>e. favorite no_fields (delete_request 2) 1 db1 = (Inl e, db1))"
proof -
  obtain e1 s1 where a: "favorite no_fields (post_request 2 (JArr [])) 1 db1 = (Inl e1, s1)"
    by (simp add: db1_def favorite_def add_recipe_def recipe_filter_id_def relation_filter_def
        queryset_exists_def post_request_def FavoriteSerializer_def)
  obtain e2 s2 where b: "shopping_cart no_fields (post_request 2 (JObj [])) 1 db1 = (Inl e2, s2)"
    by (simp add: db1_def shopping_cart_def add_recipe_def recipe_filter_id_def
        relation_filter_def queryset_exists_def post_request_def)
  obtain e3 s3 where c: "favorite no_fields (delete_request 2) 1 db1 = (Inl e3, s3)"
    by (simp add: db1_def favorite_def delete_recipe_def recipe_filter_id_def
        relation_filter_def queryset_exists_def delete_request_def get_object_or_404_def)
  from failed_toggle_keeps_state
    [where d = no_fields and request = "post_request 2 (JArr [])" and pk = 1 and s = db1
       and e = e1 and s' = s1] a
  have "s1 = db1" by simp
  moreover
  from failed_toggle_keeps_state
    [where d = no_fields and request = "post_request 2 (JObj [])" and pk = 1 and s = db1
       and e = e2 and s' = s2] b
  have "s2 = db1" by simp
  moreover
  from failed_toggle_keeps_state
    [where d = no_fields and request = "delete_request 2" and pk = 1 and s = db1
       and e = e3 and s' = s3] c
  have "s3 = db1" by simp
  ultimately show ?thesis using a b c by blast
qed

section \<open>One toggle at two relation models\<close>

lemma swap_tables_twice [simp]: "swap_tables (swap_tables s) = s"
  by (simp add: swap_tables_def)

lemma recipe_filter_id_swap [simp]: "recipe_filter_id pk (swap_tables s) = recipe_filter_id pk s"
  by (simp add: recipe_filter_id_def swap_tables_def)

lemma relation_filter_swap [simp]:
  "relation_filter Favorite r u (swap_tables s) = relation_filter ShoppingCart r u s"
  by (simp add: relation_filter_def swap_tables_def)

lemma is_valid_swap [simp]:
  "is_valid (FavoriteSerializer (swap_decls d)) body = is_valid (ShoppingCartSerializer d) body"
  by (cases body) (simp_all add: FavoriteSerializer_def ShoppingCartSerializer_def swap_decls_def)

lemma save_swap:
  "save (FavoriteSerializer (swap_decls d)) u pk (swap_tables s)
     = (fst (save (ShoppingCartSerializer d) u pk s),
        swap_tables (snd (save (ShoppingCartSerializer d) u pk s)))"
  by (simp add: save_def Let_def FavoriteSerializer_def ShoppingCartSerializer_def swap_tables_def)

lemma relabel_messages [simp]:
  "relabel message_favorite message_shopping_cart (ValidationError (Text msg_no_recipe))
     = ValidationError (Text msg_no_recipe)"
  "relabel message_favorite message_shopping_cart
     (ValidationError (Text (msg_already_added @ message_favorite)))
     = ValidationError (Text (msg_already_added @ message_shopping_cart))"
  "relabel message_favorite message_shopping_cart
     (ValidationError (Text (msg_not_added @ message_favorite)))
     = ValidationError (Text (msg_not_added @ message_shopping_cart))"
  by (simp_all add: msg_no_recipe_def msg_already_added_def msg_not_added_def
      message_favorite_def message_shopping_cart_def)

lemma relabel_is_valid:
  "is_valid ser body = Inl e \<Longrightarrow> relabel p q e = e"
  by (cases body) (auto split: option.splits)

lemma add_recipe_swap:
  "add_recipe request pk ShoppingCart (ShoppingCartSerializer d) message_shopping_cart s
     = (case add_recipe request pk Favorite (FavoriteSerializer (swap_decls d)) message_favorite
              (swap_tables s) of
          (r, t) \<Rightarrow> (map_sum (relabel message_favorite message_shopping_cart) id r, swap_tables t))"
proof (cases "map_of (recipe_rows s) pk")
  case None
  then have "map_of (recipe_rows (swap_tables s)) pk = None"
    by (simp add: swap_tables_def)
  with None show ?thesis by (simp add: add_recipe_missing del: relabel.simps(1))
next
  case (Some r)
  then have Some': "map_of (recipe_rows (swap_tables s)) pk = Some r"
    by (simp add: swap_tables_def)
  show ?thesis
  proof (cases "req_user request")
    case AnonymousUser
    with Some Some' show ?thesis
      by (simp add: add_recipe_def recipe_filter_id_Some queryset_exists_def
          del: relabel.simps(1))
  next
    case (User u)
    have rep: "to_representation (FavoriteSerializer (swap_decls d)) obj
        (swap_tables t) = to_representation (ShoppingCartSerializer d) obj t" for obj t
      by (simp add: FavoriteSerializer_def ShoppingCartSerializer_def swap_decls_def)
    show ?thesis
      by (auto simp: add_recipe_existing [OF Some User] add_recipe_existing [OF Some' User]
          save_swap rep relabel_is_valid simp del: relabel.simps(1) split: sum.splits)
  qed
qed

lemma get_object_or_404_relabel: "get_object_or_404 qs = Inl e \<Longrightarrow> relabel p q e = e"
  by (cases qs rule: queryset_get.cases) (auto simp: get_object_or_404_def)

lemma delete_recipe_swap:
  "delete_recipe request pk ShoppingCart message_shopping_cart s
     = (case delete_recipe request pk Favorite message_favorite (swap_tables s) of
          (r, t) \<Rightarrow> (map_sum (relabel message_favorite message_shopping_cart) id r, swap_tables t))"
proof (cases "map_of (recipe_rows s) pk")
  case None
  then have "map_of (recipe_rows (swap_tables s)) pk = None"
    by (simp add: swap_tables_def)
  with None show ?thesis by (simp add: delete_recipe_missing)
next
  case (Some r)
  have g: "get_object_or_404 (recipe_filter_id pk s) = Inr (pk, r)"
    using Some by (simp add: recipe_filter_id_Some get_object_or_404_def)
  have o: "favorite_rows (swap_tables s) = shopping_cart_rows s"
    by (simp add: swap_tables_def)
  have st: "swap_tables (set_objects Favorite rows (swap_tables s)) = set_objects ShoppingCart rows s"
    for rows by (simp add: swap_tables_def)
  show ?thesis
  proof (cases "req_user request")
    case AnonymousUser
    with g show ?thesis by (simp add: delete_recipe_def)
  next
    case (User u)
    show ?thesis
    proof (cases "get_object_or_404 (relation_filter ShoppingCart pk u s)")
      case (Inl e)
      with g User show ?thesis
        by (simp add: delete_recipe_def get_object_or_404_relabel del: relabel.simps(1))
    next
      case (Inr obj)
      with g User show ?thesis
        by (simp add: delete_recipe_def o st del: relabel.simps(1) set_objects.simps)
    qed
  qed
qed

text \<open>
  Claim C9. \<open>favorite\<close> is the one toggle at the model \<open>Favorite\<close>, with its serializer
  class and its message, and \<open>shopping_cart\<close> is the same toggle at \<open>ShoppingCart\<close>.
  The two differ only in the table and the list name in the error text: what
  \<open>shopping_cart\<close> does is what \<open>favorite\<close> does on the state with the two tables
  exchanged (its serializer declared with the same fields), with the tables exchanged
  back and the list name replaced in the error.
\<close>

theorem toggles_are_one_operation:
  "favorite d request pk s
     = toggle_spec Favorite (FavoriteSerializer d) message_favorite request pk s
   \<and> shopping_cart d request pk s
     = toggle_spec ShoppingCart (ShoppingCartSerializer d) message_shopping_cart request pk s
   \<and> shopping_cart d request pk s
     = (case favorite (swap_decls d) request pk (swap_tables s) of
          (r, t) \<Rightarrow> (map_sum (relabel message_favorite message_shopping_cart) id r, swap_tables t))"
  by (simp add: favorite_def shopping_cart_def toggle_spec_def add_recipe_swap delete_recipe_swap)

theorem toggles_witness:
  "shopping_cart no_fields (post_request 2 (JObj [])) 1 db1
     = (Inl (ValidationError (Text (msg_already_added @ message_shopping_cart))), db1)
   \<and> favorite (swap_decls no_fields) (post_request 2 (JObj [])) 1 (swap_tables db1)
     = (Inl (ValidationError (Text (msg_already_added @ message_favorite))), swap_tables db1)"
proof -
  have f: "favorite (swap_decls no_fields) (post_request 2 (JObj [])) 1 (swap_tables db1)
     = (Inl (ValidationError (Text (msg_already_added @ message_favorite))), swap_tables db1)"
    by (simp add: favorite_def add_recipe_def recipe_filter_id_def relation_filter_def
        queryset_exists_def post_request_def swap_tables_def db1_def)
  from toggles_are_one_operation [of no_fields "post_request 2 (JObj [])" 1 db1]
  have "shopping_cart no_fields (post_request 2 (JObj [])) 1 db1
     = (case favorite (swap_decls no_fields) (post_request 2 (JObj [])) 1 (swap_tables db1) of
          (r, t) \<Rightarrow> (map_sum (relabel message_favorite message_shopping_cart) id r, swap_tables t))"
    by blast
  also have "\<dots> = (Inl (ValidationError (Text (msg_already_added @ message_shopping_cart))), db1)"
    unfolding f by (simp del: relabel.simps(1) add: relabel_messages)
  finally show ?thesis using f by simp
qed

section \<open>Ingredients and tags are read-only and unpaginated\<close>

lemma read_only_actions:
  "viewset_actions [ListModelMixin, RetrieveModelMixin] = [Action_list, Action_retrieve]"
  by (simp add: viewset_actions_def)

lemma read_only_bound:
  "bound_action [ListModelMixin, RetrieveModelMixin] detail m
     = (if m = GET \<or> m = HEAD then Some (if detail then Action_retrieve else Action_list)
        else None)"
  by (cases m; cases detail) (simp_all add: bound_action_def read_only_actions)

lemma read_only_registered: "route_registered [ListModelMixin, RetrieveModelMixin] detail"
  by (simp add: route_registered_def read_only_bound)

lemma dispatch_read_only_state:
  assumes "vs_bases v = [ListModelMixin, RetrieveModelMixin]"
  shows "snd (dispatch v detail pk request tbl) = tbl"
  using assms
  by (simp add: dispatch_def read_only_bound read_only_registered split: sum.splits)

lemma dispatch_read_only_write_methods:
  assumes "vs_bases v = [ListModelMixin, RetrieveModelMixin]"
    and "req_method request \<in> {POST, PUT, PATCH, DELETE}"
  shows "fst (dispatch v detail pk request tbl)
           = (if vs_permission v request None then Inl MethodNotAllowed
              else Inl (permission_denied request))"
  using assms by (auto simp: dispatch_def read_only_bound read_only_registered)

lemma dispatch_list_unpaginated:
  assumes "vs_bases v = [ListModelMixin, RetrieveModelMixin]"
    and "vs_pagination_class v = None"
    and "req_method request \<in> {GET, HEAD}" and "vs_permission v request None"
  shows "fst (dispatch v False pk request tbl)
           = Inr \<lparr>status = 200,
                 data = Some (JArr (map (represent (vs_serializer_class v))
                   (vs_filter_backends v request tbl)))\<rparr>"
  using assms
  by (auto simp: dispatch_def read_only_bound read_only_registered list_response_def)

text \<open>
  The same dispatch does write for a viewset that has the writing mixins: a \<open>POST\<close> to
  the list route of \<open>all_mixins_viewset\<close> appends a row.
\<close>

lemma all_mixins_viewset_writes:
  "dispatch all_mixins_viewset False 0 (post_request 2 (JStr [115, 97, 108, 116])) (ingredient_rows db1)
     = (Inr \<lparr>status = 201, data = Some (JStr [115, 97, 108, 116])\<rparr>,
        ingredient_rows db1 @ [(12, JStr [115, 97, 108, 116])])"
  by (simp add: dispatch_def all_mixins_viewset_def IngredientViewSet_def plain_declarations_def
      route_registered_def bound_action_def viewset_actions_def post_request_def db1_def)

text \<open>
  Claim C10. \<open>IngredientViewSet\<close> and \<open>TagViewSet\<close> have the actions list and retrieve
  and no other. No request to their routes changes the state; \<open>POST\<close>, \<open>PUT\<close>,
  \<open>PATCH\<close> and \<open>DELETE\<close> are answered "method not allowed" (or refused by the
  permission check) on either route; and a permitted \<open>GET\<close> or \<open>HEAD\<close> to the list
  route is answered with the whole filtered table as one array, not a page.
\<close>

theorem ingredient_tag_read_only:
  "snd (ingredient_request c detail pk request s) = s
   \<and> snd (tag_request c detail pk request s) = s
   \<and> set (viewset_actions (vs_bases (IngredientViewSet c))) = {Action_list, Action_retrieve}
   \<and> set (viewset_actions (vs_bases (TagViewSet c))) = {Action_list, Action_retrieve}
   \<and> (req_method request \<in> {POST, PUT, PATCH, DELETE} \<longrightarrow>
        fst (ingredient_request c detail pk request s)
          = (if DEFAULT_PERMISSION_CLASSES c request None then Inl MethodNotAllowed
             else Inl (permission_denied request))
        \<and> fst (tag_request c detail pk request s)
          = (if DEFAULT_PERMISSION_CLASSES c request None then Inl MethodNotAllowed
             else Inl (permission_denied request)))
   \<and> (req_method request \<in> {GET, HEAD} \<and> DEFAULT_PERMISSION_CLASSES c request None \<longrightarrow>
        fst (ingredient_request c False pk request s)
          = Inr \<lparr>status = 200,
                data = Some (JArr (map (represent (IngredientSerializer c))
                  (IngredientsSearch c request (ingredient_rows s))))\<rparr>
        \<and> fst (tag_request c False pk request s)
          = Inr \<lparr>status = 200,
                data = Some (JArr (map (represent (TagSerializer c))
                  (DEFAULT_FILTER_BACKENDS c request (tag_rows s))))\<rparr>)"
proof -
  have bi: "vs_bases (IngredientViewSet c) = [ListModelMixin, RetrieveModelMixin]"
    and bt: "vs_bases (TagViewSet c) = [ListModelMixin, RetrieveModelMixin]"
    by (simp_all add: IngredientViewSet_def TagViewSet_def)
  have sel: "vs_pagination_class (IngredientViewSet c) = None"
    "vs_pagination_class (TagViewSet c) = None"
    "vs_permission (IngredientViewSet c) = DEFAULT_PERMISSION_CLASSES c"
    "vs_permission (TagViewSet c) = DEFAULT_PERMISSION_CLASSES c"
    "vs_serializer_class (IngredientViewSet c) = IngredientSerializer c"
    "vs_serializer_class (TagViewSet c) = TagSerializer c"
    "vs_filter_backends (IngredientViewSet c) = IngredientsSearch c"
    "vs_filter_backends (TagViewSet c) = DEFAULT_FILTER_BACKENDS c"
    by (simp_all add: IngredientViewSet_def TagViewSet_def)
  have fi: "fst (ingredient_request c detail pk request s)
      = fst (dispatch (IngredientViewSet c) detail pk request (ingredient_rows s))" for detail
    by (simp add: ingredient_request_def split: prod.splits)
  have ft: "fst (tag_request c detail pk request s)
      = fst (dispatch (TagViewSet c) detail pk request (tag_rows s))" for detail
    by (simp add: tag_request_def split: prod.splits)
  have 1: "snd (ingredient_request c detail pk request s) = s"
  proof -
    obtain r tbl where d: "dispatch (IngredientViewSet c) detail pk request (ingredient_rows s) = (r, tbl)"
      by (cases "dispatch (IngredientViewSet c) detail pk request (ingredient_rows s)")
    with dispatch_read_only_state [OF bi, of detail pk request "ingredient_rows s"]
    have "tbl = ingredient_rows s" by simp
    with d show ?thesis by (simp add: ingredient_request_def)
  qed
  have 2: "snd (tag_request c detail pk request s) = s"
  proof -
    obtain r tbl where d: "dispatch (TagViewSet c) detail pk request (tag_rows s) = (r, tbl)"
      by (cases "dispatch (TagViewSet c) detail pk request (tag_rows s)")
    with dispatch_read_only_state [OF bt, of detail pk request "tag_rows s"]
    have "tbl = tag_rows s" by simp
    with d show ?thesis by (simp add: tag_request_def)
  qed
  have 3: "set (viewset_actions (vs_bases (IngredientViewSet c))) = {Action_list, Action_retrieve}"
    "set (viewset_actions (vs_bases (TagViewSet c))) = {Action_list, Action_retrieve}"
    by (simp_all add: bi bt read_only_actions)
  have 4: "req_method request \<in> {POST, PUT, PATCH, DELETE} \<longrightarrow>
        fst (ingredient_request c detail pk request s)
          = (if DEFAULT_PERMISSION_CLASSES c request None then Inl MethodNotAllowed
             else Inl (permission_denied request))
        \<and> fst (tag_request c detail pk request s)
          = (if DEFAULT_PERMISSION_CLASSES c request None then Inl MethodNotAllowed
             else Inl (permission_denied request))"
    using dispatch_read_only_write_methods [OF bi] dispatch_read_only_write_methods [OF bt]
    by (simp only: fi ft sel) blast
  have 5: "req_method request \<in> {GET, HEAD} \<and> DEFAULT_PERMISSION_CLASSES c request None \<longrightarrow>
        fst (ingredient_request c False pk request s)
          = Inr \<lparr>status = 200,
                data = Some (JArr (map (represent (IngredientSerializer c))
                  (IngredientsSearch c request (ingredient_rows s))))\<rparr>
        \<and> fst (tag_request c False pk request s)
          = Inr \<lparr>status = 200,
                data = Some (JArr (map (represent (TagSerializer c))
                  (DEFAULT_FILTER_BACKENDS c request (tag_rows s))))\<rparr>"
    using dispatch_list_unpaginated [OF bi sel(1)] dispatch_list_unpaginated [OF bt sel(2)]
    by (simp only: fi ft sel) blast
  from 1 2 3 4 5 show ?thesis by blast
qed

theorem ingredient_tag_witness:
  "ingredient_request plain_declarations False 0 (get_request AnonymousUser) db1
     = (Inr \<lparr>status = 200,
             data = Some (JArr [JStr [98, 101, 101, 116], JStr [111, 110, 105, 111, 110]])\<rparr>, db1)
   \<and> tag_request plain_declarations True 1 (delete_request 2) db1 = (Inl MethodNotAllowed, db1)
   \<and> ingredient_request plain_declarations False 0 (post_request 2 (JStr [115, 97, 108, 116])) db1
     = (Inl MethodNotAllowed, db1)"
proof -
  have g: "req_method (get_request AnonymousUser) \<in> {GET, HEAD}"
    "DEFAULT_PERMISSION_CLASSES plain_declarations (get_request AnonymousUser) None"
    by (simp_all add: get_request_def plain_declarations_def)
  have d: "req_method (delete_request 2) \<in> {POST, PUT, PATCH, DELETE}"
    "DEFAULT_PERMISSION_CLASSES plain_declarations (delete_request 2) None"
    by (simp_all add: delete_request_def plain_declarations_def)
  have p: "req_method (post_request 2 (JStr [115, 97, 108, 116])) \<in> {POST, PUT, PATCH, DELETE}"
    "DEFAULT_PERMISSION_CLASSES plain_declarations (post_request 2 (JStr [115, 97, 108, 116])) None"
    by (simp_all add: post_request_def plain_declarations_def)
  have l: "map (represent (IngredientSerializer plain_declarations))
       (IngredientsSearch plain_declarations (get_request AnonymousUser) (ingredient_rows db1))
     = [JStr [98, 101, 101, 116], JStr [111, 110, 105, 111, 110]]"
    by (simp add: plain_declarations_def db1_def)
  note a = ingredient_tag_read_only [of plain_declarations False 0 "get_request AnonymousUser" db1]
  from a have "snd (ingredient_request plain_declarations False 0 (get_request AnonymousUser) db1) = db1"
    by blast
  moreover from a g have "fst (ingredient_request plain_declarations False 0 (get_request AnonymousUser) db1)
     = Inr \<lparr>status = 200,
            data = Some (JArr (map (represent (IngredientSerializer plain_declarations))
              (IngredientsSearch plain_declarations (get_request AnonymousUser)
                 (ingredient_rows db1))))\<rparr>"
    by blast
  ultimately have 1: "ingredient_request plain_declarations False 0 (get_request AnonymousUser) db1
     = (Inr \<lparr>status = 200,
             data = Some (JArr [JStr [98, 101, 101, 116], JStr [111, 110, 105, 111, 110]])\<rparr>, db1)"
    unfolding l by (simp add: prod_eq_iff)
  note b = ingredient_tag_read_only [of plain_declarations True 1 "delete_request 2" db1]
  from b have "snd (tag_request plain_declarations True 1 (delete_request 2) db1) = db1"
    by blast
  moreover from b d have "fst (tag_request plain_declarations True 1 (delete_request 2) db1)
     = (if DEFAULT_PERMISSION_CLASSES plain_declarations (delete_request 2) None
        then Inl MethodNotAllowed else Inl (permission_denied (delete_request 2)))"
    by blast
  ultimately have 2: "tag_request plain_declarations True 1 (delete_request 2) db1
      = (Inl MethodNotAllowed, db1)"
    using d(2) by (simp add: prod_eq_iff)
  note c = ingredient_tag_read_only
    [of plain_declarations False 0 "post_request 2 (JStr [115, 97, 108, 116])" db1]
  from c have "snd (ingredient_request plain_declarations False 0
      (post_request 2 (JStr [115, 97, 108, 116])) db1) = db1"
    by blast
  moreover from c p have "fst (ingredient_request plain_declarations False 0
      (post_request 2 (JStr [115, 97, 108, 116])) db1)
     = (if DEFAULT_PERMISSION_CLASSES plain_declarations
             (post_request 2 (JStr [115, 97, 108, 116])) None
        then Inl MethodNotAllowed
        else Inl (permission_denied (post_request 2 (JStr [115, 97, 108, 116]))))"
    by blast
  ultimately have 3: "ingredient_request plain_declarations False 0
      (post_request 2 (JStr [115, 97, 108, 116])) db1 = (Inl MethodNotAllowed, db1)"
    using p(2) by (simp add: prod_eq_iff)
  from 1 2 3 show ?thesis by simp
qed

end
